theory Spec2Isabelle
  imports Complex_Main "HOL-Library.Word" "HOL-Library.Sublist"
begin

section \<open>JavaScript numbers and values\<close>

text \<open>
  A Number is NaN, an infinity or a finite real. The arithmetic is that of IEEE 754
  binary64: the exact result, rounded to the nearest representable value, ties to even.
  The sign of a zero is not kept: nothing in the modelled code can tell the two zeros
  apart (a divisor is a count, and \<^verbatim>\<open>toFixed\<close> prints both zeros alike).
\<close>

datatype js_num = NaN | PosInf | NegInf | Fin real

definition round_half_even :: "real \<Rightarrow> int" where
  "round_half_even q =
     (let f = \<lfloor>q\<rfloor>
      in if q - real_of_int f < 1 / 2 then f
         else if 1 / 2 < q - real_of_int f then f + 1
         else if even f then f else f + 1)"

text \<open>
  The unit in the last place of x is \<open>2 powr (e - 52)\<close>, where e is the binary exponent
  of x and at least -1022 (below that the numbers are subnormal); a result of magnitude
  \<open>2 ^ 1024\<close> is an overflow.
\<close>

definition round_double :: "real \<Rightarrow> js_num" where
  "round_double x =
     (if x = 0 then Fin 0
      else
        let e = max \<lfloor>log 2 \<bar>x\<bar>\<rfloor> (- 1022);
            ulp = 2 powr (real_of_int e - 52);
            y = real_of_int (round_half_even (x / ulp)) * ulp
        in if 2 ^ 1024 \<le> \<bar>y\<bar> then (if x < 0 then NegInf else PosInf) else Fin y)"

definition num_neg :: "js_num \<Rightarrow> js_num" where
  "num_neg a = (case a of NaN \<Rightarrow> NaN | PosInf \<Rightarrow> NegInf | NegInf \<Rightarrow> PosInf | Fin x \<Rightarrow> Fin (- x))"

definition num_add :: "js_num \<Rightarrow> js_num \<Rightarrow> js_num" where
  "num_add a b =
     (case (a, b) of
        (NaN, _) \<Rightarrow> NaN
      | (_, NaN) \<Rightarrow> NaN
      | (PosInf, NegInf) \<Rightarrow> NaN
      | (NegInf, PosInf) \<Rightarrow> NaN
      | (PosInf, _) \<Rightarrow> PosInf
      | (NegInf, _) \<Rightarrow> NegInf
      | (_, PosInf) \<Rightarrow> PosInf
      | (_, NegInf) \<Rightarrow> NegInf
      | (Fin x, Fin y) \<Rightarrow> round_double (x + y))"

definition num_sub :: "js_num \<Rightarrow> js_num \<Rightarrow> js_num" where
  "num_sub a b = num_add a (num_neg b)"

definition num_sign :: "js_num \<Rightarrow> real" where
  "num_sign a = (case a of NaN \<Rightarrow> 0 | PosInf \<Rightarrow> 1 | NegInf \<Rightarrow> - 1 | Fin x \<Rightarrow> sgn x)"

definition num_mul :: "js_num \<Rightarrow> js_num \<Rightarrow> js_num" where
  "num_mul a b =
     (case (a, b) of
        (NaN, _) \<Rightarrow> NaN
      | (_, NaN) \<Rightarrow> NaN
      | (Fin x, Fin y) \<Rightarrow> round_double (x * y)
      | _ \<Rightarrow> if num_sign a * num_sign b = 0 then NaN
             else if 0 < num_sign a * num_sign b then PosInf else NegInf)"

text \<open>Division by a count: the divisor is a length, zero or positive.\<close>

definition num_div_count :: "js_num \<Rightarrow> nat \<Rightarrow> js_num" where
  "num_div_count a n =
     (case a of
        NaN \<Rightarrow> NaN
      | PosInf \<Rightarrow> PosInf
      | NegInf \<Rightarrow> NegInf
      | Fin x \<Rightarrow>
          if n = 0 then (if x = 0 then NaN else if 0 < x then PosInf else NegInf)
          else round_double (x / real n))"

definition num_sqrt :: "js_num \<Rightarrow> js_num" where
  "num_sqrt a =
     (case a of
        NaN \<Rightarrow> NaN
      | PosInf \<Rightarrow> PosInf
      | NegInf \<Rightarrow> NaN
      | Fin x \<Rightarrow> if x < 0 then NaN else round_double (sqrt x))"

text \<open>
  \<^verbatim>\<open>Math.pow(x, 2)\<close>. The language leaves the accuracy of \<^verbatim>\<open>Math.pow\<close> to the engine;
  the square is taken as correctly rounded, which is what the engines compute for the
  exponent 2.
\<close>

definition Math_pow2 :: "js_num \<Rightarrow> js_num" where
  "Math_pow2 a =
     (case a of
        NaN \<Rightarrow> NaN
      | PosInf \<Rightarrow> PosInf
      | NegInf \<Rightarrow> PosInf
      | Fin x \<Rightarrow> round_double (x * x))"

definition num_lt :: "js_num \<Rightarrow> js_num \<Rightarrow> bool" where
  "num_lt a b =
     (case (a, b) of
        (NaN, _) \<Rightarrow> False
      | (_, NaN) \<Rightarrow> False
      | (_, NegInf) \<Rightarrow> False
      | (PosInf, _) \<Rightarrow> False
      | (NegInf, _) \<Rightarrow> True
      | (_, PosInf) \<Rightarrow> True
      | (Fin x, Fin y) \<Rightarrow> x < y)"

text \<open>
  \<^verbatim>\<open>parseFloat(x.toFixed(4))\<close>: \<^verbatim>\<open>toFixed\<close> prints the decimal with four fraction digits
  nearest to x, the larger one in magnitude on a tie, and the number itself from 1e21 on;
  \<^verbatim>\<open>parseFloat\<close> reads the decimal back as the nearest Number.
\<close>

definition toFixed4 :: "js_num \<Rightarrow> js_num" where
  "toFixed4 a =
     (case a of
        NaN \<Rightarrow> NaN
      | PosInf \<Rightarrow> PosInf
      | NegInf \<Rightarrow> NegInf
      | Fin x \<Rightarrow>
          if 10 ^ 21 \<le> \<bar>x\<bar> then Fin x
          else round_double (sgn x * real_of_int \<lfloor>\<bar>x\<bar> * 10000 + 1 / 2\<rfloor> / 10000))"

text \<open>
  A value as it comes out of JSON or of the program: a string is its list of UTF-16 code
  units, an object the list of its own properties (with distinct keys).
\<close>

datatype js_value =
    JUndefined
  | JNull
  | JBoolean bool
  | JNumber js_num
  | JString "nat list"
  | JArray "js_value list"
  | JObject "(string \<times> js_value) list"

datatype js_error = TypeError | OperationError

text \<open>The decimal digits of an index, the key under which an object holds it.\<close>

fun decimal_digits :: "nat \<Rightarrow> nat \<Rightarrow> string" where
  "decimal_digits 0 n = []"
| "decimal_digits (Suc fuel) n =
     (if n < 10 then [char_of (48 + n)]
      else decimal_digits fuel (n div 10) @ [char_of (48 + n mod 10)])"

definition index_key :: "nat \<Rightarrow> string" where
  "index_key i = decimal_digits (Suc i) i"

text \<open>\<^verbatim>\<open>v.length\<close>: reading a property of null or undefined throws.\<close>

definition get_length :: "js_value \<Rightarrow> js_error + js_value" where
  "get_length v =
     (case v of
        JUndefined \<Rightarrow> Inl TypeError
      | JNull \<Rightarrow> Inl TypeError
      | JBoolean b \<Rightarrow> Inr JUndefined
      | JNumber n \<Rightarrow> Inr JUndefined
      | JString units \<Rightarrow> Inr (JNumber (Fin (real (length units))))
      | JArray elems \<Rightarrow> Inr (JNumber (Fin (real (length elems))))
      | JObject props \<Rightarrow>
          Inr (case map_of props ''length'' of None \<Rightarrow> JUndefined | Some l \<Rightarrow> l))"

text \<open>\<^verbatim>\<open>v[i]\<close> for a value that is not null or undefined.\<close>

definition get_index :: "js_value \<Rightarrow> nat \<Rightarrow> js_value" where
  "get_index v i =
     (case v of
        JString units \<Rightarrow> if i < length units then JString [units ! i] else JUndefined
      | JArray elems \<Rightarrow> if i < length elems then elems ! i else JUndefined
      | JObject props \<Rightarrow>
          (case map_of props (index_key i) of None \<Rightarrow> JUndefined | Some x \<Rightarrow> x)
      | _ \<Rightarrow> JUndefined)"

text \<open>
  \<open>ToNumber\<close>, applied by the subtraction. A string, an array or an object becomes a
  number through the numeric string grammar of the language, which is the parameter
  \<open>coerce\<close>.
\<close>

definition ToNumber :: "(js_value \<Rightarrow> js_num) \<Rightarrow> js_value \<Rightarrow> js_num" where
  "ToNumber coerce v =
     (case v of
        JUndefined \<Rightarrow> NaN
      | JNull \<Rightarrow> Fin 0
      | JBoolean b \<Rightarrow> Fin (if b then 1 else 0)
      | JNumber n \<Rightarrow> n
      | _ \<Rightarrow> coerce v)"

text \<open>Truthiness, as \<^verbatim>\<open>&&\<close> and \<^verbatim>\<open>if\<close> test it.\<close>

definition truthy :: "js_value \<Rightarrow> bool" where
  "truthy v =
     (case v of
        JUndefined \<Rightarrow> False
      | JNull \<Rightarrow> False
      | JBoolean b \<Rightarrow> b
      | JNumber n \<Rightarrow> n \<noteq> NaN \<and> n \<noteq> Fin 0
      | JString units \<Rightarrow> units \<noteq> []
      | _ \<Rightarrow> True)"

section \<open>Biometric matcher (src/src/lib/auth.ts, faceApi part)\<close>

record compare_result =
  match :: bool
  distance :: js_num

text \<open>The loop \<^verbatim>\<open>for (let i = 0; i < 128; i++) sum += Math.pow(e1[i] - e2[i], 2)\<close>.\<close>

definition squared_sum :: "(js_value \<Rightarrow> js_num) \<Rightarrow> js_value \<Rightarrow> js_value \<Rightarrow> js_num" where
  "squared_sum coerce embedding1 embedding2 =
     fold (\<lambda>i sum. num_add sum
                      (Math_pow2 (num_sub (ToNumber coerce (get_index embedding1 i))
                                          (ToNumber coerce (get_index embedding2 i)))))
       [0..<128] (Fin 0)"

text \<open>
  The guard reads \<^verbatim>\<open>embedding1.length\<close> first and \<^verbatim>\<open>embedding2.length\<close> only when the
  first is 128.
\<close>

definition compareFaceEmbeddings ::
  "(js_value \<Rightarrow> js_num) \<Rightarrow> js_value \<Rightarrow> js_value \<Rightarrow> js_error + compare_result" where
  "compareFaceEmbeddings coerce embedding1 embedding2 =
     (case get_length embedding1 of
        Inl e \<Rightarrow> Inl e
      | Inr length1 \<Rightarrow>
          if length1 \<noteq> JNumber (Fin 128) then Inr \<lparr>match = False, distance = Fin 1\<rparr>
          else
            (case get_length embedding2 of
               Inl e \<Rightarrow> Inl e
             | Inr length2 \<Rightarrow>
                 if length2 \<noteq> JNumber (Fin 128) then Inr \<lparr>match = False, distance = Fin 1\<rparr>
                 else
                   let computed = num_sqrt (squared_sum coerce embedding1 embedding2);
                       threshold = Fin (1 / 2)
                   in Inr \<lparr>match = num_lt computed threshold,
                           distance = toFixed4 computed\<rparr>))"

subsection \<open>Liveness\<close>

record detection =
  box_width :: js_num
  box_height :: js_num
  score :: js_num
  landmarks :: "(js_num \<times> js_num) list"
  descriptor :: "js_num list"

datatype liveness_reason = NoFace | FaceTooSmall | LowConfidence | NoMovement

text \<open>
  The loop over the previous landmarks, with the running total; reading a landmark the
  current detection does not have is the TypeError of the source
  (\<^verbatim>\<open>currLandmarks[i].x\<close> on undefined).
\<close>

fun totalMovement ::
  "(js_num \<times> js_num) list \<Rightarrow> (js_num \<times> js_num) list \<Rightarrow> js_num \<Rightarrow> js_error + js_num" where
  "totalMovement [] currLandmarks moved = Inr moved"
| "totalMovement (p # prevLandmarks) [] moved = Inl TypeError"
| "totalMovement (p # prevLandmarks) (c # currLandmarks) moved =
     (let dx = num_sub (fst c) (fst p); dy = num_sub (snd c) (snd p)
      in totalMovement prevLandmarks currLandmarks
           (num_add moved (num_sqrt (num_add (num_mul dx dx) (num_mul dy dy)))))"

text \<open>The Numbers that the literals 0.8 and 0.1 denote.\<close>

definition literal_0_8 :: js_num where
  "literal_0_8 = Fin (3602879701896397 / 4503599627370496)"

definition literal_0_1 :: js_num where
  "literal_0_1 = Fin (3602879701896397 / 36028797018963968)"

text \<open>
  \<open>checkLiveness\<close> gets the detection of the current frame (\<open>None\<close>: no face) and the
  previous detection. With no previous landmarks the average is 0/0, which is NaN, and
  \<^verbatim>\<open>NaN < 0.1\<close> is false.
\<close>

definition checkLiveness ::
  "detection option \<Rightarrow> detection option \<Rightarrow> js_error + (bool \<times> liveness_reason option)" where
  "checkLiveness currentDetection previousDetection =
     (case currentDetection of
        None \<Rightarrow> Inr (False, Some NoFace)
      | Some cur \<Rightarrow>
          if num_lt (box_width cur) (Fin 100) \<or> num_lt (box_height cur) (Fin 100)
          then Inr (False, Some FaceTooSmall)
          else if num_lt (score cur) literal_0_8 then Inr (False, Some LowConfidence)
          else
            (case previousDetection of
               None \<Rightarrow> Inr (True, None)
             | Some prev \<Rightarrow>
                 (case totalMovement (landmarks prev) (landmarks cur) (Fin 0) of
                    Inl e \<Rightarrow> Inl e
                  | Inr moved \<Rightarrow>
                      let avgMovement = num_div_count moved (length (landmarks prev))
                      in if num_lt avgMovement literal_0_1
                         then Inr (False, Some NoMovement)
                         else Inr (True, None))))"

text \<open>
  The liveness loop of \<open>handleCapture\<close> (FaceCapture.tsx). Each turn detects a face in the
  current frame and reads \<^verbatim>\<open>previousDetectionRef.current\<close>; the loop never assigns
  the reference, but a \<open>processFrame\<close> of the preview that is still running can, so a
  turn is the pair of the frame's detection and of the reference as that turn reads it.
\<close>

fun livenessLoop :: "(detection option \<times> detection option) list \<Rightarrow> nat \<Rightarrow> js_error + nat" where
  "livenessLoop [] livenessPass = Inr livenessPass"
| "livenessLoop ((frame, previousDetection) # turns) livenessPass =
     (case checkLiveness frame previousDetection of
        Inl e \<Rightarrow> Inl e
      | Inr liveness \<Rightarrow>
          livenessLoop turns (if fst liveness then livenessPass + 1 else livenessPass))"

datatype capture_outcome =
    LivenessFailed
  | NoEmbedding
  | VerificationFailed js_num
  | Captured "js_num list"

datatype capture_mode = Register | Verify

text \<open>
  \<open>handleCapture\<close>: three turns of the liveness loop, then the detection \<open>final\<close> that
  \<open>getFaceEmbedding\<close> makes, then the comparison with the registered descriptor, which
  is the value stored for the account.
\<close>

definition handleCapture ::
  "(js_value \<Rightarrow> js_num) \<Rightarrow> capture_mode \<Rightarrow> js_value \<Rightarrow>
   detection option \<times> detection option \<Rightarrow> detection option \<times> detection option \<Rightarrow>
   detection option \<times> detection option \<Rightarrow> detection option \<Rightarrow> js_error + capture_outcome" where
  "handleCapture coerce mode existingEmbedding turn1 turn2 turn3 final =
     (case livenessLoop [turn1, turn2, turn3] 0 of
        Inl e \<Rightarrow> Inl e
      | Inr livenessPass \<Rightarrow>
          if livenessPass < 2 then Inr LivenessFailed
          else
            (case final of
               None \<Rightarrow> Inr NoEmbedding
             | Some found \<Rightarrow>
                 let embedding = descriptor found in
                 if mode = Verify \<and> truthy existingEmbedding then
                   (case compareFaceEmbeddings coerce existingEmbedding
                           (JArray (map JNumber embedding)) of
                      Inl e \<Rightarrow> Inl e
                    | Inr result \<Rightarrow>
                        if \<not> match result then Inr (VerificationFailed (distance result))
                        else Inr (Captured embedding))
                 else Inr (Captured embedding)))"

section \<open>Credential authority (src/supabase/functions/auth/index.ts)\<close>

text \<open>
  Strings are well-formed Unicode text, held as their UTF-8 bytes: \<^verbatim>\<open>TextEncoder.encode\<close>
  is the identity on them and \<^verbatim>\<open>===\<close> is equality of the bytes.
\<close>

type_synonym byte = "8 word"

definition hex_digit :: "nat \<Rightarrow> char" where
  "hex_digit n = ''0123456789abcdef'' ! n"

text \<open>\<^verbatim>\<open>b.toString(16).padStart(2, "0")\<close> for a byte.\<close>

definition hex_byte :: "byte \<Rightarrow> string" where
  "hex_byte b = [hex_digit (unat b div 16), hex_digit (unat b mod 16)]"

definition to_hex :: "byte list \<Rightarrow> string" where
  "to_hex bs = concat (map hex_byte bs)"

text \<open>
  \<^verbatim>\<open>crypto.getRandomValues\<close> is a byte source \<open>rnd\<close>: byte i of the array is \<open>rnd i\<close>.
\<close>

definition generateToken :: "(nat \<Rightarrow> byte) \<Rightarrow> string" where
  "generateToken rnd = to_hex (map rnd [0..<32])"

definition generateRefreshToken :: "(nat \<Rightarrow> byte) \<Rightarrow> string" where
  "generateRefreshToken rnd = to_hex (map rnd [0..<64])"

definition generateSalt :: "(nat \<Rightarrow> byte) \<Rightarrow> string" where
  "generateSalt rnd = to_hex (map rnd [0..<16])"

text \<open>
  \<open>validateCSRFToken\<close>: \<open>None\<close> is a token that is absent or not a string (a value that
  is not a string is never \<^verbatim>\<open>===\<close> to the header, which is a string or null); the
  empty string is falsy.
\<close>

definition validateCSRFToken :: "string option \<Rightarrow> string option \<Rightarrow> bool" where
  "validateCSRFToken headerCSRF clientCSRF =
     (case clientCSRF of
        None \<Rightarrow> False
      | Some c \<Rightarrow>
          (case headerCSRF of
             None \<Rightarrow> False
           | Some h \<Rightarrow> c \<noteq> [] \<and> h \<noteq> [] \<and> c = h))"

text \<open>
  The white space and line terminators of ECMAScript, in UTF-8: TAB, LF, VT, FF, CR, SP,
  U+00A0, U+1680, U+2000 to U+200A, U+2028, U+2029, U+202F, U+205F, U+3000, U+FEFF.
\<close>

definition js_whitespace :: "string list" where
  "js_whitespace =
     [[CHR 0x09], [CHR 0x0A], [CHR 0x0B], [CHR 0x0C], [CHR 0x0D], [CHR 0x20],
      [CHR 0xC2, CHR 0xA0], [CHR 0xE1, CHR 0x9A, CHR 0x80],
      [CHR 0xE2, CHR 0x80, CHR 0x80], [CHR 0xE2, CHR 0x80, CHR 0x81],
      [CHR 0xE2, CHR 0x80, CHR 0x82], [CHR 0xE2, CHR 0x80, CHR 0x83],
      [CHR 0xE2, CHR 0x80, CHR 0x84], [CHR 0xE2, CHR 0x80, CHR 0x85],
      [CHR 0xE2, CHR 0x80, CHR 0x86], [CHR 0xE2, CHR 0x80, CHR 0x87],
      [CHR 0xE2, CHR 0x80, CHR 0x88], [CHR 0xE2, CHR 0x80, CHR 0x89],
      [CHR 0xE2, CHR 0x80, CHR 0x8A], [CHR 0xE2, CHR 0x80, CHR 0xA8],
      [CHR 0xE2, CHR 0x80, CHR 0xA9], [CHR 0xE2, CHR 0x80, CHR 0xAF],
      [CHR 0xE2, CHR 0x81, CHR 0x9F], [CHR 0xE3, CHR 0x80, CHR 0x80],
      [CHR 0xEF, CHR 0xBB, CHR 0xBF]]"

function strip_leading :: "string list \<Rightarrow> string \<Rightarrow> string" where
  "strip_leading ws s =
     (case find (\<lambda>w. w \<noteq> [] \<and> prefix w s) ws of
        None \<Rightarrow> s
      | Some w \<Rightarrow> strip_leading ws (drop (length w) s))"
  by pat_completeness auto
termination
proof (relation "measure (\<lambda>(ws, s). length s)")
  show "wf (measure (\<lambda>(ws, s). length s))" by simp
next
  fix ws :: "string list" and s w :: string
  assume "find (\<lambda>w. w \<noteq> [] \<and> prefix w s) ws = Some w"
  then have "w \<noteq> []" and "prefix w s"
    by (auto simp: find_Some_iff)
  then have "s \<noteq> []" by auto
  with \<open>w \<noteq> []\<close> show "((ws, drop (length w) s), (ws, s)) \<in> measure (\<lambda>(ws, s). length s)"
    by simp
qed

definition trim :: "string \<Rightarrow> string" where
  "trim s = rev (strip_leading (map rev js_whitespace) (rev (strip_leading js_whitespace s)))"

text \<open>\<open>sanitizeInput\<close>: \<open>None\<close> is an input that is not a string.\<close>

definition sanitizeInput :: "string option \<Rightarrow> string" where
  "sanitizeInput input =
     (case input of
        None \<Rightarrow> []
      | Some s \<Rightarrow> filter (\<lambda>c. c \<noteq> CHR ''<'' \<and> c \<noteq> CHR ''>'') (trim s))"

text \<open>\<^verbatim>\<open>s.split("$")\<close> for a one-character separator.\<close>

fun split_on :: "char \<Rightarrow> string \<Rightarrow> string list" where
  "split_on sep [] = [[]]"
| "split_on sep (c # cs) =
     (if c = sep then [] # split_on sep cs
      else (case split_on sep cs of
              [] \<Rightarrow> [[c]]
            | part # parts \<Rightarrow> (c # part) # parts))"

definition is_digit :: "char \<Rightarrow> bool" where
  "is_digit c = (c \<in> set ''0123456789'')"

definition digit_value :: "char \<Rightarrow> int" where
  "digit_value c = int (of_char c) - 48"

text \<open>
  \<^verbatim>\<open>parseInt(s, 10)\<close>: leading white space, an optional sign, then the longest run of
  decimal digits; \<open>None\<close> is NaN.
\<close>

definition parseInt10 :: "string \<Rightarrow> int option" where
  "parseInt10 s =
     (let t = strip_leading js_whitespace s;
          negative = (t \<noteq> [] \<and> hd t = CHR ''-'');
          signed = (t \<noteq> [] \<and> (hd t = CHR ''-'' \<or> hd t = CHR ''+''));
          digits = takeWhile is_digit (if signed then tl t else t)
      in if digits = [] then None
         else Some ((if negative then -1 else 1)
                    * foldl (\<lambda>acc c. 10 * acc + digit_value c) 0 digits))"

text \<open>
  The key derivation of the platform (PBKDF2 with SHA-256, 256 bits) is a parameter
  \<open>kdf password salt iterations\<close>. \<open>deriveBits\<close> adds the checks the interface makes on
  the iteration count, an unsigned 32-bit integer that must not be zero.
\<close>

type_synonym kdf = "string \<Rightarrow> string \<Rightarrow> nat \<Rightarrow> byte list"

definition deriveBits :: "kdf \<Rightarrow> string \<Rightarrow> string \<Rightarrow> int option \<Rightarrow> js_error + byte list" where
  "deriveBits pbkdf2 passwordData saltData iterations =
     (case iterations of
        None \<Rightarrow> Inl TypeError
      | Some n \<Rightarrow>
          if n < 0 \<or> 4294967295 < n then Inl TypeError
          else if n = 0 then Inl OperationError
          else Inr (pbkdf2 passwordData saltData (nat n)))"

definition hashPassword ::
  "kdf \<Rightarrow> (nat \<Rightarrow> byte) \<Rightarrow> string \<Rightarrow> string option \<Rightarrow> js_error + string" where
  "hashPassword pbkdf2 rnd password salt =
     (let useSalt = (case salt of
                       None \<Rightarrow> generateSalt rnd
                     | Some s \<Rightarrow> if s = [] then generateSalt rnd else s)
      in case deriveBits pbkdf2 password useSalt (Some 100000) of
           Inl e \<Rightarrow> Inl e
         | Inr hash \<Rightarrow> Inr (''$pbkdf2$100000$'' @ useSalt @ ''$'' @ to_hex hash))"

definition verifyPassword :: "kdf \<Rightarrow> string \<Rightarrow> string \<Rightarrow> js_error + bool" where
  "verifyPassword pbkdf2 password storedHash =
     (if prefix ''$pbkdf2$'' storedHash then
        (let parts = split_on CHR ''$'' storedHash in
         if length parts \<noteq> 5 then Inr False
         else
           let iterations = parseInt10 (parts ! 2);
               salt = parts ! 3;
               expectedHash = parts ! 4
           in case deriveBits pbkdf2 password salt iterations of
                Inl e \<Rightarrow> Inl e
              | Inr hash \<Rightarrow> Inr (to_hex hash = expectedHash))
      else Inr (password = storedHash))"


subsection \<open>The store\<close>

text \<open>
  Times are milliseconds since the epoch. The tables carry the columns the login action
  reads or writes (migrations under src/supabase/migrations and src/unnamed/part_001).
\<close>

datatype user_role = Admin | Teacher | Student

record user =
  uid :: nat
  login :: string
  password_hash :: string
  role :: user_role
  is_active :: bool
  device_fingerprint :: "string option"

record session =
  user_id :: nat
  token :: string
  fingerprint :: "string option"
  session_user_agent :: "string option"
  session_ip_address :: "string option"
  expires_at :: int

record login_attempt =
  attempt_login :: string
  attempt_ip_address :: "string option"
  attempt_user_agent :: string
  success :: bool
  created_at :: int

datatype rule_type = Whitelist | Blacklist

record ip_rule =
  ip_address :: string
  rule_kind :: rule_type
  rule_expires_at :: "int option"

record activity_log =
  log_user_id :: nat
  action :: string
  reason :: "string option"

record database =
  users :: "user list"
  sessions :: "session list"
  login_attempts :: "login_attempt list"
  ip_rules :: "ip_rule list"
  activity_logs :: "activity_log list"

text \<open>The SQL functions of the migration; \<open>now\<close> is the clock of the call.\<close>

definition is_ip_blocked :: "database \<Rightarrow> string \<Rightarrow> int \<Rightarrow> bool" where
  "is_ip_blocked db check_ip now =
     (\<exists>r \<in> set (ip_rules db).
        ip_address r = check_ip \<and> rule_kind r = Blacklist \<and>
        (case rule_expires_at r of None \<Rightarrow> True | Some e \<Rightarrow> now < e))"

definition recent_failures :: "database \<Rightarrow> string \<Rightarrow> string \<Rightarrow> int \<Rightarrow> login_attempt list" where
  "recent_failures db check_login check_ip now =
     filter (\<lambda>a. (attempt_login a = check_login \<or> attempt_ip_address a = Some check_ip) \<and>
                 success a = False \<and>
                 now - 900000 < created_at a)
       (login_attempts db)"

definition is_login_rate_limited :: "database \<Rightarrow> string \<Rightarrow> string \<Rightarrow> int \<Rightarrow> bool" where
  "is_login_rate_limited db check_login check_ip now =
     (5 \<le> length (recent_failures db check_login check_ip now))"

definition record_login_attempt ::
  "database \<Rightarrow> string \<Rightarrow> string \<Rightarrow> string \<Rightarrow> bool \<Rightarrow> int \<Rightarrow> database" where
  "record_login_attempt db p_login p_ip_address p_user_agent p_success now =
     db\<lparr>login_attempts :=
          filter (\<lambda>a. \<not> created_at a < now - 86400000)
            (login_attempts db @
             [\<lparr>attempt_login = p_login, attempt_ip_address = Some p_ip_address,
               attempt_user_agent = p_user_agent, success = p_success, created_at = now\<rparr>])\<rparr>"

text \<open>
  The calls the action makes on the store, in order. A read changes no table, so the
  list is how the model shows that it happened.
\<close>

datatype db_call =
    RpcIsIpBlocked
  | RpcIsLoginRateLimited
  | SelectUser
  | RpcRecordLoginAttempt bool
  | InsertActivityLog string
  | UpdatePasswordHash
  | UpdateDeviceFingerprint
  | DeleteSessions
  | InsertSession

text \<open>
  \<^verbatim>\<open>.eq("login", l).eq("is_active", true).maybeSingle()\<close>: one row, or none; several
  rows are an error, which the action treats as no row.
\<close>

definition select_user :: "database \<Rightarrow> string \<Rightarrow> user option" where
  "select_user db sanitizedLogin =
     (case filter (\<lambda>u. login u = sanitizedLogin \<and> is_active u) (users db) of
        [u] \<Rightarrow> Some u
      | _ \<Rightarrow> None)"

definition update_password_hash :: "database \<Rightarrow> nat \<Rightarrow> string \<Rightarrow> database" where
  "update_password_hash db i hashedPassword =
     db\<lparr>users := map (\<lambda>u. if uid u = i then u\<lparr>password_hash := hashedPassword\<rparr> else u) (users db)\<rparr>"

definition update_device_fingerprint :: "database \<Rightarrow> nat \<Rightarrow> string option \<Rightarrow> database" where
  "update_device_fingerprint db i fp =
     db\<lparr>users := map (\<lambda>u. if uid u = i then u\<lparr>device_fingerprint := fp\<rparr> else u) (users db)\<rparr>"

definition insert_activity_log :: "database \<Rightarrow> nat \<Rightarrow> string \<Rightarrow> string option \<Rightarrow> database" where
  "insert_activity_log db i act why =
     db\<lparr>activity_logs := activity_logs db @ [\<lparr>log_user_id = i, action = act, reason = why\<rparr>]\<rparr>"

definition delete_sessions :: "database \<Rightarrow> nat \<Rightarrow> database" where
  "delete_sessions db i = db\<lparr>sessions := filter (\<lambda>s. user_id s \<noteq> i) (sessions db)\<rparr>"

text \<open>
  The columns of the sessions table (CREATE TABLE public.sessions in
  src/unnamed/part_001, and the generated types of src/src/integrations/supabase/types.ts).
\<close>

definition sessions_columns :: "string list" where
  "sessions_columns =
     [''id'', ''user_id'', ''token'', ''ip_address'', ''user_agent'', ''fingerprint'',
      ''expires_at'', ''created_at'']"

datatype sql_value = SqlNull | SqlText string | SqlId nat | SqlTime int

definition sql_text :: "sql_value option \<Rightarrow> string option" where
  "sql_text v = (case v of Some (SqlText t) \<Rightarrow> Some t | _ \<Rightarrow> None)"

text \<open>
  An insert gives the row as an object, a list of columns with their values. It is an
  error when the object names a column that the table does not have, when \<open>user_id\<close>,
  \<open>token\<close> or \<open>expires_at\<close> (NOT NULL, no default) is missing, and when the token is
  that of another row (UNIQUE).
\<close>

definition insert_session :: "database \<Rightarrow> (string \<times> sql_value) list \<Rightarrow> database option" where
  "insert_session db row =
     (if \<not> list_all (\<lambda>column. column \<in> set sessions_columns) (map fst row) then None
      else
        (case (map_of row ''user_id'', map_of row ''token'', map_of row ''expires_at'') of
           (Some (SqlId u), Some (SqlText t), Some (SqlTime e)) \<Rightarrow>
             if \<exists>old \<in> set (sessions db). token old = t then None
             else Some (db\<lparr>sessions := sessions db @
                          [\<lparr>user_id = u, token = t,
                            fingerprint = sql_text (map_of row ''fingerprint''),
                            session_user_agent = sql_text (map_of row ''user_agent''),
                            session_ip_address = sql_text (map_of row ''ip_address''),
                            expires_at = e\<rparr>]\<rparr>)
         | _ \<Rightarrow> None))"

subsection \<open>The login action\<close>

record login_body =
  csrf_token :: "string option"
  body_login :: "string option"
  body_password :: "string option"
  body_fingerprint :: "string option"

text \<open>
  A request: the x-xsrf-token header, the caller's address as \<open>getClientIP\<close> gives it, the
  user agent and the parsed body (\<open>None\<close>: \<^verbatim>\<open>req.json()\<close> throws). The environment holds
  the clock of the store (\<open>now\<close>), the two readings that \<^verbatim>\<open>new Date()\<close> gives for the
  access and the refresh expiry, the calendar arithmetic of the runtime in its local time
  zone (\<open>plus_12_hours d\<close> is the instant of \<^verbatim>\<open>d.setHours(d.getHours() + 12)\<close>,
  \<open>plus_7_days d\<close> that of \<^verbatim>\<open>d.setDate(d.getDate() + 7)\<close>) and the random bytes.
\<close>

record request =
  header_csrf :: "string option"
  clientIP :: string
  userAgent :: string
  body :: "login_body option"

record environment =
  now :: int
  access_clock :: int
  refresh_clock :: int
  plus_12_hours :: "int \<Rightarrow> int"
  plus_7_days :: "int \<Rightarrow> int"
  salt_rnd :: "nat \<Rightarrow> byte"
  token_rnd :: "nat \<Rightarrow> byte"
  refresh_rnd :: "nat \<Rightarrow> byte"

datatype login_outcome =
    IpBlocked
  | CsrfRejected
  | FieldsMissing
  | RateLimited
  | InvalidCredentials
  | DeviceMismatch
  | SessionCreationFailed
  | SystemError
  | LoginSuccess string string int

type_synonym login_result = "(nat \<times> login_outcome) \<times> database \<times> db_call list"

text \<open>From "Record successful login" to the response.\<close>

definition issue_session ::
  "environment \<Rightarrow> request \<Rightarrow> user \<Rightarrow> string option \<Rightarrow> string \<Rightarrow> database \<Rightarrow> db_call list
   \<Rightarrow> login_result" where
  "issue_session env req usr fp sanitizedLogin db calls =
     (let db1 = record_login_attempt db sanitizedLogin (clientIP req) (userAgent req) True (now env);
          tok = generateToken (token_rnd env);
          refreshToken = generateRefreshToken (refresh_rnd env);
          expiresAt = plus_12_hours env (access_clock env);
          refreshExpiresAt = plus_7_days env (refresh_clock env);
          db2 = delete_sessions db1 (uid usr);
          calls2 = calls @ [RpcRecordLoginAttempt True, DeleteSessions, InsertSession]
      in case insert_session db2
                [(''user_id'', SqlId (uid usr)),
                 (''token'', SqlText tok),
                 (''refresh_token'', SqlText refreshToken),
                 (''fingerprint'', (case fp of None \<Rightarrow> SqlNull | Some f \<Rightarrow> SqlText f)),
                 (''user_agent'', SqlText (userAgent req)),
                 (''ip_address'', SqlText (clientIP req)),
                 (''expires_at'', SqlTime expiresAt),
                 (''refresh_expires_at'', SqlTime refreshExpiresAt)] of
           None \<Rightarrow> ((500, SessionCreationFailed), db2, calls2)
         | Some db3 \<Rightarrow>
             ((200, LoginSuccess tok refreshToken expiresAt),
              insert_activity_log db3 (uid usr) ''login_success'' None,
              calls2 @ [InsertActivityLog ''login_success'']))"

text \<open>"Check device binding for students"; a fingerprint is truthy when set and not empty.\<close>

definition check_device ::
  "environment \<Rightarrow> request \<Rightarrow> user \<Rightarrow> string option \<Rightarrow> string \<Rightarrow> database \<Rightarrow> db_call list
   \<Rightarrow> login_result" where
  "check_device env req usr fp sanitizedLogin db calls =
     (if role usr = Student then
        (let deviceFingerprint = device_fingerprint usr;
             bound = (deviceFingerprint \<noteq> None \<and> deviceFingerprint \<noteq> Some [])
         in if bound \<and> deviceFingerprint \<noteq> fp then
              ((403, DeviceMismatch),
               insert_activity_log
                 (record_login_attempt db sanitizedLogin (clientIP req) (userAgent req) False (now env))
                 (uid usr) ''login_failed'' (Some ''device_mismatch''),
               calls @ [RpcRecordLoginAttempt False, InsertActivityLog ''login_failed''])
            else if \<not> bound then
              issue_session env req usr fp sanitizedLogin
                (update_device_fingerprint db (uid usr) fp) (calls @ [UpdateDeviceFingerprint])
            else issue_session env req usr fp sanitizedLogin db calls)
      else issue_session env req usr fp sanitizedLogin db calls)"

text \<open>"Verify password" and "If password was plain text, upgrade to PBKDF2".\<close>

definition check_password ::
  "kdf \<Rightarrow> environment \<Rightarrow> request \<Rightarrow> user \<Rightarrow> string option \<Rightarrow> string \<Rightarrow> string \<Rightarrow> database
   \<Rightarrow> db_call list \<Rightarrow> login_result" where
  "check_password pbkdf2 env req usr fp sanitizedLogin sanitizedPassword db calls =
     (case verifyPassword pbkdf2 sanitizedPassword (password_hash usr) of
        Inl e \<Rightarrow> ((500, SystemError), db, calls)
      | Inr passwordValid \<Rightarrow>
          if \<not> passwordValid then
            ((401, InvalidCredentials),
             insert_activity_log
               (record_login_attempt db sanitizedLogin (clientIP req) (userAgent req) False (now env))
               (uid usr) ''login_failed'' (Some ''wrong_password''),
             calls @ [RpcRecordLoginAttempt False, InsertActivityLog ''login_failed''])
          else if \<not> prefix ''$pbkdf2$'' (password_hash usr) then
            (case hashPassword pbkdf2 (salt_rnd env) sanitizedPassword None of
               Inl e \<Rightarrow> ((500, SystemError), db, calls)
             | Inr hashedPassword \<Rightarrow>
                 check_device env req usr fp sanitizedLogin
                   (update_password_hash db (uid usr) hashedPassword)
                   (calls @ [UpdatePasswordHash]))
          else check_device env req usr fp sanitizedLogin db calls)"

text \<open>The handler of \<open>Deno.serve\<close> for a request whose action is "login".\<close>

definition login_action :: "kdf \<Rightarrow> environment \<Rightarrow> request \<Rightarrow> database \<Rightarrow> login_result" where
  "login_action pbkdf2 env req db =
     (if is_ip_blocked db (clientIP req) (now env) then ((403, IpBlocked), db, [RpcIsIpBlocked])
      else
        (case body req of
           None \<Rightarrow> ((500, SystemError), db, [RpcIsIpBlocked])
         | Some b \<Rightarrow>
             if \<not> validateCSRFToken (header_csrf req) (csrf_token b)
             then ((403, CsrfRejected), db, [RpcIsIpBlocked])
             else
               (let sanitizedLogin = sanitizeInput (body_login b);
                    sanitizedPassword = sanitizeInput (body_password b)
                in if sanitizedLogin = [] \<or> sanitizedPassword = []
                   then ((400, FieldsMissing), db, [RpcIsIpBlocked])
                   else if is_login_rate_limited db sanitizedLogin (clientIP req) (now env)
                   then ((429, RateLimited), db, [RpcIsIpBlocked, RpcIsLoginRateLimited])
                   else
                     (case select_user db sanitizedLogin of
                        None \<Rightarrow>
                          ((401, InvalidCredentials),
                           record_login_attempt db sanitizedLogin (clientIP req) (userAgent req)
                             False (now env),
                           [RpcIsIpBlocked, RpcIsLoginRateLimited, SelectUser,
                            RpcRecordLoginAttempt False])
                      | Some usr \<Rightarrow>
                          check_password pbkdf2 env req usr (body_fingerprint b) sanitizedLogin
                            sanitizedPassword db
                            [RpcIsIpBlocked, RpcIsLoginRateLimited, SelectUser]))))"


section \<open>Check-in orchestrator (StudentCheckin, src/unnamed/part_004)\<close>

datatype CheckinStep = PinStep | FaceStep | ResultStep

datatype result_status = Present | Suspicious | Rejected

datatype attendance_status = present | absent | excused | unexcused | suspicious

text \<open>The messages of a result, with the values the source formats into them.\<close>

datatype result_message =
    MobileOnly
  | PinInvalid
  | GpsError string
  | NoFaceId
  | FaceNotVerified
  | FakeGpsDetected "string list"
  | TooFar real real
  | CheckinRecorded real
  | SystemFailure

record CheckResult =
  result_success :: bool
  message :: result_message
  status :: "result_status option"

record LessonData =
  lesson_id :: nat
  latitude :: real
  longitude :: real
  radius_meters :: "int option"
  pin_expires_at :: int

record lesson_row =
  lesson :: LessonData
  pin_code :: "string option"
  lesson_is_active :: bool

record Location =
  loc_latitude :: real
  loc_longitude :: real

record LocationState =
  at_latitude :: real
  at_longitude :: real
  loc_distance :: real
  fakeCheck :: "bool \<times> string list"

record attendance_row =
  att_status :: attendance_status
  check_in_time :: "int option"
  att_latitude :: "real option"
  att_longitude :: "real option"
  distance_meters :: "real option"
  is_fake_gps :: bool
  suspicious_reason :: "string option"
  att_fingerprint :: "string option"
  att_user_agent :: "string option"

record checkin_log =
  actor :: nat
  log_action :: string
  log_lesson :: nat
  log_reason :: "string option"
  log_distance :: real

text \<open>
  The attendance table is keyed by (lesson, student), its UNIQUE constraint; a row holds
  the columns the check-in writes. \<open>audit\<close> is the activity log.
\<close>

record world =
  attendance :: "nat \<times> nat \<rightharpoonup> attendance_row"
  audit :: "checkin_log list"

record ui_state =
  step :: CheckinStep
  checkResult :: "CheckResult option"
  lessonData :: "LessonData option"
  locationData :: "LocationState option"
  pin :: string
  isChecking :: bool

text \<open>
  What a check-in reads from outside the component: the logged-in student, the registered
  descriptor, the device test, the lessons table, the clock, the answers of
  \<open>detectFakeGPS\<close> and \<open>getCurrentLocation\<close> (\<open>Inl\<close>: the promise rejects with a message),
  the device fingerprint and \<open>calculateDistance\<close>.
\<close>

record checkin_env =
  current_user :: "nat option"
  userFaceEmbedding :: "real list option"
  isMobileDevice :: bool
  lessons :: "lesson_row list"
  clock :: int
  detectFakeGPS :: "bool \<times> string list"
  getCurrentLocation :: "string + Location"
  getFingerprint :: string
  navigator_userAgent :: string
  calculateDistance :: "real \<Rightarrow> real \<Rightarrow> real \<Rightarrow> real \<Rightarrow> real"

definition select_lesson :: "lesson_row list \<Rightarrow> string \<Rightarrow> int \<Rightarrow> LessonData option" where
  "select_lesson rows pinCode t =
     (case filter (\<lambda>r. pin_code r = Some pinCode \<and> lesson_is_active r \<and>
                        t \<le> pin_expires_at (lesson r)) rows of
        [r] \<Rightarrow> Some (lesson r)
      | _ \<Rightarrow> None)"

text \<open>\<^verbatim>\<open>lesson.radius_meters || 120\<close>.\<close>

definition radius_or_default :: "LessonData \<Rightarrow> real" where
  "radius_or_default l =
     (case radius_meters l of
        None \<Rightarrow> 120
      | Some r \<Rightarrow> if r = 0 then 120 else real_of_int r)"

definition show_result :: "ui_state \<Rightarrow> bool \<Rightarrow> result_message \<Rightarrow> result_status option \<Rightarrow> ui_state" where
  "show_result ui ok msg st =
     ui\<lparr>checkResult := Some \<lparr>result_success = ok, message = msg, status = st\<rparr>,
        step := ResultStep\<rparr>"

definition handlePinSubmit :: "checkin_env \<Rightarrow> string \<Rightarrow> ui_state \<times> world \<Rightarrow> ui_state \<times> world" where
  "handlePinSubmit env pinCode s =
     (case s of (ui, w) \<Rightarrow>
      (case current_user env of
         None \<Rightarrow> (ui, w)
       | Some u \<Rightarrow>
           if length pinCode \<noteq> 6 then (ui, w)
           else
             (let ui0 = ui\<lparr>checkResult := None\<rparr> in
              if \<not> isMobileDevice env
              then ((show_result ui0 False MobileOnly None)\<lparr>isChecking := False\<rparr>, w)
              else
                (case select_lesson (lessons env) pinCode (clock env) of
                   None \<Rightarrow> ((show_result ui0 False PinInvalid None)\<lparr>isChecking := False\<rparr>, w)
                 | Some l \<Rightarrow>
                     (let ui1 = ui0\<lparr>lessonData := Some l\<rparr>;
                          fake = detectFakeGPS env
                      in case getCurrentLocation env of
                           Inl err \<Rightarrow>
                             ((show_result ui1 False (GpsError err) None)\<lparr>isChecking := False\<rparr>, w)
                         | Inr location \<Rightarrow>
                             (let distanceM = calculateDistance env (loc_latitude location)
                                           (loc_longitude location) (latitude l) (longitude l);
                                  ui2 = ui1\<lparr>locationData :=
                                              Some \<lparr>at_latitude = loc_latitude location,
                                                    at_longitude = loc_longitude location,
                                                    loc_distance = distanceM, fakeCheck = fake\<rparr>\<rparr>
                              in case userFaceEmbedding env of
                                   Some registered \<Rightarrow> (ui2\<lparr>step := FaceStep, isChecking := False\<rparr>, w)
                                 | None \<Rightarrow>
                                     ((show_result ui2 False NoFaceId (Some Suspicious))
                                        \<lparr>isChecking := False\<rparr>,
                                      w\<lparr>audit := audit w @
                                           [\<lparr>actor = u, log_action = ''checkin_failed'',
                                             log_lesson = lesson_id l,
                                             log_reason = Some ''no_face_id'',
                                             log_distance = distanceM\<rparr>]\<rparr>)))))))"

definition completeCheckin ::
  "checkin_env \<Rightarrow> LessonData \<Rightarrow> Location \<Rightarrow> real \<Rightarrow> bool \<times> string list \<Rightarrow> real \<Rightarrow> bool
   \<Rightarrow> ui_state \<times> world \<Rightarrow> ui_state \<times> world" where
  "completeCheckin env l location distanceM fake radiusMeters faceVerified s =
     (case s of (ui, w) \<Rightarrow>
      (case current_user env of
         None \<Rightarrow> (ui, w)
       | Some u \<Rightarrow>
           (let isWithinRadius = (distanceM \<le> radiusMeters);
                fp = getFingerprint env
            in if fst fake \<or> \<not> isWithinRadius then
                 ((show_result ui False
                     (if fst fake then FakeGpsDetected (snd fake) else TooFar distanceM radiusMeters)
                     (Some Rejected))\<lparr>pin := [], isChecking := False\<rparr>,
                  w\<lparr>audit := audit w @
                       [\<lparr>actor = u, log_action = ''checkin_rejected'', log_lesson = lesson_id l,
                         log_reason = None, log_distance = distanceM\<rparr>]\<rparr>)
               else
                 (let attendanceData =
                        \<lparr>att_status = present, check_in_time = Some (clock env),
                         att_latitude = Some (loc_latitude location),
                         att_longitude = Some (loc_longitude location),
                         distance_meters = Some distanceM, is_fake_gps = False,
                         suspicious_reason = None, att_fingerprint = Some fp,
                         att_user_agent = Some (navigator_userAgent env)\<rparr>;
                      written =
                        (case attendance w (lesson_id l, u) of
                           Some existingRecord \<Rightarrow> (attendance w)((lesson_id l, u) \<mapsto> attendanceData)
                         | None \<Rightarrow> (attendance w)((lesson_id l, u) \<mapsto> attendanceData))
                  in ((show_result ui True (CheckinRecorded distanceM) (Some Present))
                        \<lparr>pin := [], isChecking := False\<rparr>,
                      w\<lparr>attendance := written,
                        audit := audit w @
                          [\<lparr>actor = u, log_action = ''checkin_success'', log_lesson = lesson_id l,
                            log_reason = None, log_distance = distanceM\<rparr>]\<rparr>)))))"

definition handleFaceVerified :: "checkin_env \<Rightarrow> ui_state \<times> world \<Rightarrow> ui_state \<times> world" where
  "handleFaceVerified env s =
     (case s of (ui, w) \<Rightarrow>
      (case (lessonData ui, locationData ui) of
         (Some l, Some loc) \<Rightarrow>
           completeCheckin env l
             \<lparr>loc_latitude = at_latitude loc, loc_longitude = at_longitude loc\<rparr>
             (loc_distance loc) (fakeCheck loc) (radius_or_default l) True
             (ui\<lparr>isChecking := True\<rparr>, w)
       | _ \<Rightarrow> (ui, w)))"

definition handleFaceFailed :: "checkin_env \<Rightarrow> ui_state \<times> world \<Rightarrow> ui_state \<times> world" where
  "handleFaceFailed env s =
     (case s of (ui, w) \<Rightarrow>
      (case (lessonData ui, locationData ui, current_user env) of
         (Some l, Some loc, Some u) \<Rightarrow>
           (show_result ui False FaceNotVerified (Some Suspicious),
            w\<lparr>attendance := (attendance w)((lesson_id l, u) \<mapsto>
                  \<lparr>att_status = suspicious, check_in_time = Some (clock env),
                   att_latitude = Some (at_latitude loc),
                   att_longitude = Some (at_longitude loc),
                   distance_meters = Some (loc_distance loc),
                   is_fake_gps = fst (fakeCheck loc),
                   suspicious_reason = Some ''Face ID tasdiqlanmadi'',
                   att_fingerprint = Some (getFingerprint env),
                   att_user_agent = Some (navigator_userAgent env)\<rparr>),
              audit := audit w @
                [\<lparr>actor = u, log_action = ''checkin_suspicious'', log_lesson = lesson_id l,
                  log_reason = Some ''face_verification_failed'',
                  log_distance = loc_distance loc\<rparr>]\<rparr>)
       | _ \<Rightarrow> (ui, w)))"

definition handleRetry :: "ui_state \<Rightarrow> ui_state" where
  "handleRetry ui =
     ui\<lparr>checkResult := None, step := PinStep, pin := [], lessonData := None,
        locationData := None\<rparr>"

text \<open>
  The face step renders FaceCapture in verify mode: a capture calls \<open>handleFaceVerified\<close>,
  a mismatch calls \<open>handleFaceFailed\<close>, and a failed liveness check or a frame without a
  face leaves the step as it is.
\<close>

definition faceGate ::
  "checkin_env \<Rightarrow> js_error + capture_outcome \<Rightarrow> ui_state \<times> world \<Rightarrow> ui_state \<times> world" where
  "faceGate env outcome s =
     (case outcome of
        Inr (Captured embedding) \<Rightarrow> handleFaceVerified env s
      | Inr (VerificationFailed d) \<Rightarrow> handleFaceFailed env s
      | _ \<Rightarrow> s)"

definition checkin_attempt ::
  "checkin_env \<Rightarrow> string \<Rightarrow> js_error + capture_outcome \<Rightarrow> ui_state \<times> world \<Rightarrow> ui_state \<times> world" where
  "checkin_attempt env pinCode outcome s =
     (let s1 = handlePinSubmit env pinCode s
      in if step (fst s1) = FaceStep then faceGate env outcome s1 else s1)"

definition initial_ui :: ui_state where
  "initial_ui = \<lparr>step = PinStep, checkResult = None, lessonData = None, locationData = None,
                 pin = [], isChecking = False\<rparr>"


section \<open>Notions of the specification and of the claims\<close>

text \<open>
  A descriptor of numbers as a JavaScript array, and the distance of two descriptors as
  double arithmetic computes it: the squares of the differences added from left to
  right, each operation rounded, then the square root.
\<close>

definition is_finite :: "js_num \<Rightarrow> bool" where
  "is_finite a = (case a of Fin x \<Rightarrow> True | _ \<Rightarrow> False)"

definition add_square :: "js_num \<Rightarrow> js_num \<times> js_num \<Rightarrow> js_num" where
  "add_square s xy = num_add s (Math_pow2 (num_sub (fst xy) (snd xy)))"

definition computed_distance :: "js_num list \<Rightarrow> js_num list \<Rightarrow> js_num" where
  "computed_distance a b = num_sqrt (foldl add_square (Fin 0) (zip a b))"

definition numbers :: "js_num list \<Rightarrow> js_value" where
  "numbers xs = JArray (map JNumber xs)"



text \<open>
  The mean displacement of the landmarks between two detections in double arithmetic,
  and what makes a turn of the liveness loop count: \<open>qualifies\<close> as the code decides it,
  on the frame and the stored previous detection of that turn; \<open>spec_qualifies\<close> as the
  specification words it, with a motion strictly above the threshold relative to the
  previous sample. \<open>landmarks_cover\<close> says that the current detection has a landmark for
  each one of the previous detection (the landmark model gives 68 points for every face).
\<close>

definition displacement :: "js_num \<times> js_num \<Rightarrow> js_num \<times> js_num \<Rightarrow> js_num" where
  "displacement p c =
     (let dx = num_sub (fst c) (fst p); dy = num_sub (snd c) (snd p)
      in num_sqrt (num_add (num_mul dx dx) (num_mul dy dy)))"

definition mean_movement :: "(js_num \<times> js_num) list \<Rightarrow> (js_num \<times> js_num) list \<Rightarrow> js_num" where
  "mean_movement ps cs =
     num_div_count (foldl (\<lambda>moved (p, c). num_add moved (displacement p c)) (Fin 0) (zip ps cs))
       (length ps)"

definition qualifies :: "detection option \<times> detection option \<Rightarrow> bool" where
  "qualifies turn =
     (case fst turn of
        None \<Rightarrow> False
      | Some cur \<Rightarrow>
          \<not> num_lt (box_width cur) (Fin 100) \<and> \<not> num_lt (box_height cur) (Fin 100) \<and>
          \<not> num_lt (score cur) literal_0_8 \<and>
          (case snd turn of
             None \<Rightarrow> True
           | Some p \<Rightarrow> \<not> num_lt (mean_movement (landmarks p) (landmarks cur)) literal_0_1))"

definition landmarks_cover :: "detection option \<times> detection option \<Rightarrow> bool" where
  "landmarks_cover turn =
     (case turn of
        (Some cur, Some p) \<Rightarrow> length (landmarks p) \<le> length (landmarks cur)
      | _ \<Rightarrow> True)"

definition spec_qualifies :: "detection option \<Rightarrow> detection option \<Rightarrow> bool" where
  "spec_qualifies previousSample frame =
     (case frame of
        None \<Rightarrow> False
      | Some cur \<Rightarrow>
          \<not> num_lt (box_width cur) (Fin 100) \<and> \<not> num_lt (box_height cur) (Fin 100) \<and>
          \<not> num_lt (score cur) literal_0_8 \<and>
          (case previousSample of
             None \<Rightarrow> False
           | Some p \<Rightarrow> num_lt literal_0_1 (mean_movement (landmarks p) (landmarks cur))))"

fun spec_qualifying :: "detection option \<Rightarrow> detection option list \<Rightarrow> nat" where
  "spec_qualifying previousSample [] = 0"
| "spec_qualifying previousSample (frame # frames) =
     (if spec_qualifies previousSample frame then 1 else 0) + spec_qualifying frame frames"


text \<open>
  The grammar of a stored hash, \<^verbatim>\<open>$pbkdf2$<iterations>$<salt-hex>$<hash-hex>\<close>, as the
  specification gives it.
\<close>

definition is_hex_char :: "char \<Rightarrow> bool" where
  "is_hex_char c = (c \<in> set ''0123456789abcdef'')"



section \<open>Example data\<close>

text \<open>
  A descriptor at distance 16383/32768 from the zero descriptor, one whose exact distance
  from it is below 1/2 while the computed sum of squares is 1/4, an array of 128 booleans,
  and a face whose landmarks all sit at (x, 0).
\<close>

definition probe :: "js_num list" where
  "probe = Fin (16383 / 32768) # replicate 127 (Fin 0)"

definition edge :: "js_num list" where
  "edge = Fin (8076799387264615 / 18014398509481984) #
          Fin (1993423567163325 / 9007199254740992) # replicate 126 (Fin 0)"

definition zeros :: "js_num list" where
  "zeros = replicate 128 (Fin 0)"



definition face_at :: "real \<Rightarrow> detection" where
  "face_at x = \<lparr>box_width = Fin 200, box_height = Fin 200, score = Fin 1,
               landmarks = replicate 68 (Fin x, Fin 0), descriptor = replicate 128 (Fin 0)\<rparr>"

text \<open>
  A face as \<open>face_at 0\<close> with one landmark moved by the double 6.800000000000001, whose
  square rounds to \<open>nudge_square\<close>: the mean displacement of the 68 landmarks is the
  double 0.1.
\<close>

definition nudge :: real where
  "nudge = 1914029841632461 / 281474976710656"

definition nudge_square :: real where
  "nudge_square = 203365670673449 / 4398046511104"

definition face_nudged :: detection where
  "face_nudged = \<lparr>box_width = Fin 200, box_height = Fin 200, score = Fin 1,
                   landmarks = (Fin nudge, Fin 0) # replicate 67 (Fin 0, Fin 0),
                   descriptor = replicate 128 (Fin 0)\<rparr>"


text \<open>
  A stand-in for the key derivation that tells passwords of different lengths apart, an
  account with a legacy password and an old session, and five recent failed attempts.
\<close>

definition example_kdf :: kdf where
  "example_kdf password salt iterations = replicate (length password) 0"

definition example_rnd :: "nat \<Rightarrow> byte" where
  "example_rnd i = of_nat i"

definition example_env :: environment where
  "example_env = \<lparr>now = 1000000000, access_clock = 1000000000, refresh_clock = 1000000001,
                   plus_12_hours = (\<lambda>d. d + 43200000), plus_7_days = (\<lambda>d. d + 604800000),
                   salt_rnd = example_rnd, token_rnd = example_rnd,
                   refresh_rnd = example_rnd\<rparr>"

definition bob :: user where
  "bob = \<lparr>uid = 7, login = ''bob'', password_hash = ''hunter2'', role = Teacher,
           is_active = True, device_fingerprint = None\<rparr>"

definition old_session :: session where
  "old_session = \<lparr>user_id = 7, token = ''aa'', fingerprint = None,
                   session_user_agent = Some ''ua'', session_ip_address = Some ''10.0.0.1'',
                   expires_at = 999999999\<rparr>"

definition example_db :: database where
  "example_db = \<lparr>users = [bob], sessions = [old_session], login_attempts = [],
                  ip_rules = [], activity_logs = []\<rparr>"

definition failed_attempt :: login_attempt where
  "failed_attempt = \<lparr>attempt_login = ''bob'', attempt_ip_address = Some ''10.0.0.9'',
                      attempt_user_agent = ''ua'', success = False, created_at = 999999000\<rparr>"

definition limited_db :: database where
  "limited_db = example_db\<lparr>login_attempts := replicate 5 failed_attempt\<rparr>"

definition login_request :: request where
  "login_request =
     \<lparr>header_csrf = Some ''tok'', clientIP = ''10.0.0.1'', userAgent = ''ua'',
      body = Some \<lparr>csrf_token = Some ''tok'', body_login = Some ''bob'',
                    body_password = Some ''hunter2'', body_fingerprint = None\<rparr>\<rparr>"

definition forged_request :: request where
  "forged_request = login_request\<lparr>header_csrf := None\<rparr>"


text \<open>
  The same request with an empty password, and with a space before the login and the
  password; five recent failures recorded for the login " bob" from another address.
\<close>

definition empty_password_request :: request where
  "empty_password_request =
     login_request\<lparr>body := Some \<lparr>csrf_token = Some ''tok'', body_login = Some ''bob'',
                                    body_password = Some [], body_fingerprint = None\<rparr>\<rparr>"

definition spaced_request :: request where
  "spaced_request =
     login_request\<lparr>body := Some \<lparr>csrf_token = Some ''tok'', body_login = Some '' bob'',
                                    body_password = Some '' hunter2'', body_fingerprint = None\<rparr>\<rparr>"

definition spaced_db :: database where
  "spaced_db = example_db\<lparr>login_attempts :=
                 replicate 5 (failed_attempt\<lparr>attempt_login := '' bob''\<rparr>)\<rparr>"

text \<open>
  A lesson with PIN 482913 and a radius of 120 m; a student with a registered descriptor
  who is 200 m away, the same student without a registered descriptor, and the same
  student 50 m away with a GPS reported as fake.
\<close>

definition example_lesson :: LessonData where
  "example_lesson = \<lparr>lesson_id = 1, latitude = 41.3, longitude = 69.2,
                      radius_meters = Some 120, pin_expires_at = 2000\<rparr>"

definition far_env :: checkin_env where
  "far_env =
     \<lparr>current_user = Some 7, userFaceEmbedding = Some (replicate 128 0),
      isMobileDevice = True,
      lessons = [\<lparr>lesson = example_lesson, pin_code = Some ''482913'',
                  lesson_is_active = True\<rparr>],
      clock = 1000, detectFakeGPS = (False, []),
      getCurrentLocation = Inr \<lparr>loc_latitude = 41.3, loc_longitude = 69.21\<rparr>,
      getFingerprint = ''fp'', navigator_userAgent = ''ua'',
      calculateDistance = (\<lambda>lat1 lon1 lat2 lon2. 200)\<rparr>"

definition no_face_env :: checkin_env where
  "no_face_env = far_env\<lparr>userFaceEmbedding := None\<rparr>"

definition fake_env :: checkin_env where
  "fake_env = far_env\<lparr>detectFakeGPS := (True, [''Emulyator aniqlandi'']),
                       calculateDistance := (\<lambda>lat1 lon1 lat2 lon2. 50)\<rparr>"

definition empty_world :: world where
  "empty_world = \<lparr>attendance = Map.empty, audit = []\<rparr>"

section \<open>Double arithmetic\<close>

text \<open>
  Rounding to the nearest double is evaluated through these facts: a number whose
  binade is known rounds on the grid of that binade, and a dyadic number with at most
  53 significant bits is its own rounding.
\<close>

lemma round_half_even_int [simp]: "round_half_even (real_of_int n) = n"
  by (simp add: round_half_even_def)

lemma round_double_zero [simp]: "round_double 0 = Fin 0"
  by (simp add: round_double_def)

lemma floor_log2_eq:
  assumes "2 powr real_of_int e \<le> \<bar>x\<bar>" and "\<bar>x\<bar> < 2 powr (real_of_int e + 1)"
  shows "\<lfloor>log 2 \<bar>x\<bar>\<rfloor> = e"
proof -
  have pos: "0 < \<bar>x\<bar>" using assms(1) by (smt (verit) powr_gt_zero)
  show ?thesis
    using assms pos by (simp add: floor_log_eq_powr_iff)
qed

lemma round_double_eval:
  assumes "2 powr real_of_int e \<le> \<bar>x\<bar>" and "\<bar>x\<bar> < 2 powr (real_of_int e + 1)"
    and "- 1022 \<le> e"
    and "y = real_of_int (round_half_even (x / 2 powr (real_of_int e - 52))) * 2 powr (real_of_int e - 52)"
    and "\<bar>y\<bar> < 2 ^ 1024"
  shows "round_double x = Fin y"
proof -
  have "x \<noteq> 0" using assms(1) by (smt (verit) powr_gt_zero)
  moreover have "max \<lfloor>log 2 \<bar>x\<bar>\<rfloor> (- 1022) = e"
    using floor_log2_eq [OF assms(1,2)] assms(3) by simp
  ultimately show ?thesis
    using assms(4,5) by (simp add: round_double_def Let_def)
qed

lemma round_double_exact:
  assumes "2 powr real_of_int e \<le> \<bar>x\<bar>" and "\<bar>x\<bar> < 2 powr (real_of_int e + 1)"
    and "- 1022 \<le> e" and "e < 1024"
    and "x / 2 powr (real_of_int e - 52) = real_of_int n"
  shows "round_double x = Fin x"
proof -
  have y: "x = real_of_int (round_half_even (x / 2 powr (real_of_int e - 52))) * 2 powr (real_of_int e - 52)"
  proof -
    have u: "(2::real) powr (real_of_int e - 52) \<noteq> 0" by simp
    have "x = x / 2 powr (real_of_int e - 52) * 2 powr (real_of_int e - 52)"
      using u by simp
    then show ?thesis unfolding assms(5) round_half_even_int .
  qed
  have "2 powr (real_of_int e + 1) \<le> 2 powr 1024"
    using assms(4) by (intro powr_mono) auto
  then have "\<bar>x\<bar> < 2 ^ 1024"
    using assms(2) by (simp add: powr_numeral flip: powr_realpow)
  with y show ?thesis
    using round_double_eval [OF assms(1,2,3), of x] by simp
qed

lemma round_double_dyadic:
  assumes m: "m \<noteq> 0" "\<bar>m\<bar> < 2 ^ 53" and k: "k \<le> 1022"
  shows "round_double (real_of_int m / 2 ^ k) = Fin (real_of_int m / 2 ^ k)"
proof -
  define x where "x = real_of_int m / 2 ^ k"
  define e where "e = \<lfloor>log 2 \<bar>x\<bar>\<rfloor>"
  have xpos: "0 < \<bar>x\<bar>" using m by (simp add: x_def)
  have e: "2 powr real_of_int e \<le> \<bar>x\<bar>" "\<bar>x\<bar> < 2 powr (real_of_int e + 1)"
    using xpos floor_log_eq_powr_iff [of "\<bar>x\<bar>" 2 e] by (simp_all add: e_def)
  have absx: "\<bar>x\<bar> = real_of_int \<bar>m\<bar> / 2 ^ k" by (simp add: x_def)
  have lo: "1 / 2 ^ k \<le> \<bar>x\<bar>"
    unfolding absx using m by (simp add: divide_right_mono)
  have "2 powr (- real k) \<le> \<bar>x\<bar>"
    using lo by (simp add: powr_minus powr_realpow inverse_eq_divide)
  then have "2 powr (- real k) < 2 powr (real_of_int e + 1)" using e(2) by linarith
  then have "- real k < real_of_int e + 1" by simp
  then have elo: "- int k \<le> e" by linarith
  have hi: "\<bar>x\<bar> < 2 ^ 53 / 2 ^ k"
    unfolding absx using m(2) by (simp add: divide_strict_right_mono)
  have "2 ^ 53 / 2 ^ k = 2 powr (53 - real k)"
    by (simp add: powr_diff powr_realpow)
  with hi e(1) have "2 powr real_of_int e < 2 powr (53 - real k)" by linarith
  then have "real_of_int e < 53 - real k" by simp
  then have ehi: "e \<le> 52 - int k" by linarith
  define j where "j = nat (52 - int k - e)"
  have j: "real_of_int e - 52 = - real k - real j" using ehi by (simp add: j_def)
  have "x / 2 powr (real_of_int e - 52) = real_of_int m * 2 ^ j"
    unfolding j x_def by (simp add: powr_diff powr_minus powr_realpow field_simps)
  then have int: "x / 2 powr (real_of_int e - 52) = real_of_int (m * 2 ^ j)" by simp
  have "- 1022 \<le> e" using elo k by linarith
  moreover have "e < 1024" using ehi by linarith
  ultimately show ?thesis
    using round_double_exact [OF e _ _ int] by (simp add: x_def)
qed

lemma round_double_int:
  "\<bar>n\<bar> < 2 ^ 53 \<Longrightarrow> round_double (real_of_int n) = Fin (real_of_int n)"
  using round_double_dyadic [of n 0] by (cases "n = 0") simp_all

lemma round_half_even_near: "\<bar>real_of_int (round_half_even q) - q\<bar> \<le> 1 / 2"
  unfolding round_half_even_def Let_def by (auto; linarith)

lemma round_double_small:
  assumes "1 / 2 ^ k \<le> \<bar>x\<bar>" and "\<bar>x\<bar> < 2 / 2 ^ k" and "k \<le> 1022"
    and "n = round_half_even (x * 2 ^ (k + 52))"
  shows "round_double x = Fin (real_of_int n / 2 ^ (k + 52))"
proof -
  have p1: "(2::real) powr real_of_int (- int k) = 1 / 2 ^ k"
    by (simp add: powr_minus powr_realpow inverse_eq_divide)
  have "(2::real) powr (real_of_int (- int k) + 1) = 2 powr real_of_int (- int k) * 2 powr 1"
    by (rule powr_add)
  then have p2: "(2::real) powr (real_of_int (- int k) + 1) = 2 / 2 ^ k"
    unfolding p1 by simp
  have "(2::real) powr (real_of_int (- int k) - 52) = 2 powr real_of_int (- int k) / 2 powr 52"
    by (rule powr_diff)
  also have "(2::real) powr 52 = 2 ^ 52"
    using powr_realpow [of "2::real" 52] by simp
  finally have p3: "(2::real) powr (real_of_int (- int k) - 52) = 1 / 2 ^ (k + 52)"
    unfolding p1 by (simp add: power_add)
  have near: "\<bar>real_of_int n - x * 2 ^ (k + 52)\<bar> \<le> 1 / 2"
    unfolding assms(4) by (rule round_half_even_near)
  have "\<bar>x * 2 ^ (k + 52)\<bar> = \<bar>x\<bar> * 2 ^ (k + 52)"
    by (simp add: abs_mult)
  then have "\<bar>real_of_int n\<bar> \<le> \<bar>x\<bar> * 2 ^ (k + 52) + 1 / 2"
    using near by linarith
  also have "\<dots> < (2 / 2 ^ k) * 2 ^ (k + 52) + 1 / 2"
  proof -
    have "\<bar>x\<bar> * 2 ^ (k + 52) < (2 / 2 ^ k) * 2 ^ (k + 52)"
      using assms(2) by (rule mult_strict_right_mono) simp
    then show ?thesis by simp
  qed
  also have "\<dots> = 2 ^ 53 + 1 / 2" by (simp add: power_add)
  finally have nb: "\<bar>real_of_int n\<bar> < 2 ^ 53 + 1 / 2" .
  have one: "(1::real) \<le> 2 ^ (k + 52)" by (rule one_le_power) simp
  have "\<bar>real_of_int n / 2 ^ (k + 52)\<bar> = \<bar>real_of_int n\<bar> / 2 ^ (k + 52)"
    by simp
  also have "\<dots> \<le> \<bar>real_of_int n\<bar> / 1"
    using one by (intro divide_left_mono) simp_all
  also have "\<dots> < 2 ^ 53 + 1 / 2" using nb by simp
  also have "(2::real) ^ 53 + 1 / 2 \<le> 2 ^ 54" by simp
  also have "(2::real) ^ 54 \<le> 2 ^ 1024" by (rule power_increasing) simp_all
  finally have small: "\<bar>real_of_int n / 2 ^ (k + 52)\<bar> < 2 ^ 1024" .
  show ?thesis
    using round_double_eval [of "- int k" x "real_of_int n / 2 ^ (k + 52)"] assms small
    unfolding p1 p2 p3 by simp
qed

lemma round_half_even_between:
  assumes "real_of_int m - 1 / 2 < q" and "q < real_of_int m + 1 / 2"
  shows "round_half_even q = m"
proof -
  have "\<lfloor>q\<rfloor> = m \<or> \<lfloor>q\<rfloor> = m - 1" using assms by linarith
  then show ?thesis
  proof
    assume f: "\<lfloor>q\<rfloor> = m"
    then have "q - real_of_int m < 1 / 2" using assms by linarith
    with f show ?thesis by (simp add: round_half_even_def Let_def)
  next
    assume f: "\<lfloor>q\<rfloor> = m - 1"
    then have "1 / 2 < q - real_of_int (m - 1)" using assms by simp
    with f show ?thesis by (simp add: round_half_even_def Let_def)
  qed
qed

lemma round_double_large:
  assumes "2 ^ k \<le> \<bar>x\<bar>" and "\<bar>x\<bar> < 2 * 2 ^ k" and "k \<le> 52"
    and "n = round_half_even (x * 2 ^ (52 - k))"
  shows "round_double x = Fin (real_of_int n / 2 ^ (52 - k))"
proof -
  have p1: "(2::real) powr real_of_int (int k) = 2 ^ k"
    using powr_realpow [of "2::real" k] by simp
  have "(2::real) powr (real_of_int (int k) + 1) = 2 powr real_of_int (int k) * 2 powr 1"
    by (rule powr_add)
  then have p2: "(2::real) powr (real_of_int (int k) + 1) = 2 * 2 ^ k"
    unfolding p1 by simp
  have split: "(2::real) ^ 52 = 2 ^ k * 2 ^ (52 - k)"
    using assms(3) by (simp flip: power_add)
  have "(2::real) powr (real_of_int (int k) - 52) = 2 powr real_of_int (int k) / 2 powr 52"
    by (rule powr_diff)
  also have "(2::real) powr 52 = 2 ^ 52"
    using powr_realpow [of "2::real" 52] by simp
  finally have p3: "(2::real) powr (real_of_int (int k) - 52) = 1 / 2 ^ (52 - k)"
    unfolding p1 split by simp
  have near: "\<bar>real_of_int n - x * 2 ^ (52 - k)\<bar> \<le> 1 / 2"
    unfolding assms(4) by (rule round_half_even_near)
  have "\<bar>x * 2 ^ (52 - k)\<bar> = \<bar>x\<bar> * 2 ^ (52 - k)"
    by (simp add: abs_mult)
  then have "\<bar>real_of_int n\<bar> \<le> \<bar>x\<bar> * 2 ^ (52 - k) + 1 / 2"
    using near by linarith
  also have "\<dots> < (2 * 2 ^ k) * 2 ^ (52 - k) + 1 / 2"
  proof -
    have "\<bar>x\<bar> * 2 ^ (52 - k) < (2 * 2 ^ k) * 2 ^ (52 - k)"
      using assms(2) by (rule mult_strict_right_mono) simp
    then show ?thesis by simp
  qed
  also have "\<dots> = 2 ^ 53 + 1 / 2" using split by simp
  finally have nb: "\<bar>real_of_int n\<bar> < 2 ^ 53 + 1 / 2" .
  have one: "(1::real) \<le> 2 ^ (52 - k)" by (rule one_le_power) simp
  have "\<bar>real_of_int n / 2 ^ (52 - k)\<bar> = \<bar>real_of_int n\<bar> / 2 ^ (52 - k)"
    by simp
  also have "\<dots> \<le> \<bar>real_of_int n\<bar> / 1"
    using one by (intro divide_left_mono) simp_all
  also have "\<dots> < 2 ^ 53 + 1 / 2" using nb by simp
  also have "(2::real) ^ 53 + 1 / 2 \<le> 2 ^ 54" by simp
  also have "(2::real) ^ 54 \<le> 2 ^ 1024" by (rule power_increasing) simp_all
  finally have small: "\<bar>real_of_int n / 2 ^ (52 - k)\<bar> < 2 ^ 1024" .
  show ?thesis
    using round_double_eval [of "int k" x "real_of_int n / 2 ^ (52 - k)"] assms small
    unfolding p1 p2 p3 by simp
qed

section \<open>Properties of the biometric matcher\<close>

lemma get_length_numbers [simp]: "get_length (numbers xs) = Inr (JNumber (Fin (real (length xs))))"
  by (simp add: numbers_def get_length_def)

lemma get_index_numbers [simp]: "i < length xs \<Longrightarrow> get_index (numbers xs) i = JNumber (xs ! i)"
  by (simp add: numbers_def get_index_def)

lemma ToNumber_JNumber [simp]: "ToNumber coerce (JNumber n) = n"
  by (simp add: ToNumber_def)

lemma fold_index_zip:
  assumes "n \<le> length a" and "n \<le> length b"
  shows "fold (\<lambda>i sum. num_add sum
                      (Math_pow2 (num_sub (ToNumber coerce (get_index (numbers a) i))
                                          (ToNumber coerce (get_index (numbers b) i)))))
           [0..<n] s
         = foldl add_square s (zip (take n a) (take n b))"
  using assms
proof (induction n)
  case 0
  then show ?case by simp
next
  case (Suc n)
  then have n: "n < length a" "n < length b" by simp_all
  have "zip (take (Suc n) a) (take (Suc n) b) = zip (take n a) (take n b) @ [(a ! n, b ! n)]"
    using n by (simp add: take_Suc_conv_app_nth)
  with Suc n show ?case by (simp add: add_square_def)
qed

lemma squared_sum_numbers:
  assumes "length a = 128" and "length b = 128"
  shows "squared_sum coerce (numbers a) (numbers b) = foldl add_square (Fin 0) (zip a b)"
  unfolding squared_sum_def using fold_index_zip [of 128 a b coerce "Fin 0"] assms by simp

lemma compare_numbers:
  assumes "length a = 128" and "length b = 128"
  shows "compareFaceEmbeddings coerce (numbers a) (numbers b)
           = Inr \<lparr>match = num_lt (computed_distance a b) (Fin (1 / 2)),
                  distance = toFixed4 (computed_distance a b)\<rparr>"
  using assms
  by (simp add: compareFaceEmbeddings_def squared_sum_numbers computed_distance_def Let_def)

lemma add_square_same: "is_finite x \<Longrightarrow> add_square (Fin 0) (x, x) = Fin 0"
  by (cases x) (simp_all add: is_finite_def add_square_def num_sub_def num_neg_def num_add_def
      Math_pow2_def)

lemma foldl_same: "list_all is_finite e \<Longrightarrow> foldl add_square (Fin 0) (zip e e) = Fin 0"
  by (induction e) (simp_all add: add_square_same)

lemma computed_distance_same: "list_all is_finite e \<Longrightarrow> computed_distance e e = Fin 0"
  by (simp add: computed_distance_def foldl_same num_sqrt_def)

lemma toFixed4_zero [simp]: "toFixed4 (Fin 0) = Fin 0"
  by (simp add: toFixed4_def)

text \<open>
  C8, amended. For two descriptors \<open>a\<close> and \<open>b\<close> of 128 numbers,
  \<^verbatim>\<open>compareFaceEmbeddings\<close> returns as distance the Euclidean distance as double
  arithmetic computes it (the squares of the differences added from left to right, every
  operation rounded to the nearest double, then the square root), rounded to 4 decimals,
  and the match is the comparison of the computed distance, before that last rounding,
  with 0.5. For every descriptor \<open>e\<close> of 128 finite numbers the comparison of \<open>e\<close> with
  itself returns a match and the distance 0.
\<close>

theorem compare_amended:
  assumes "length a = 128" and "length b = 128"
  shows "compareFaceEmbeddings coerce (numbers a) (numbers b)
           = Inr \<lparr>match = num_lt (computed_distance a b) (Fin (1 / 2)),
                  distance = toFixed4 (computed_distance a b)\<rparr> \<and>
         (list_all is_finite a \<longrightarrow>
          compareFaceEmbeddings coerce (numbers a) (numbers a)
            = Inr \<lparr>match = True, distance = Fin 0\<rparr>)"
  using compare_numbers [OF assms, of coerce] compare_numbers [OF assms(1) assms(1), of coerce]
  by (simp add: computed_distance_same num_lt_def)

text \<open>The amended statement at the example descriptor and the zero descriptor.\<close>

theorem compare_amended_witness:
  "length probe = 128 \<and> length zeros = 128 \<and>
   compareFaceEmbeddings (\<lambda>v. NaN) (numbers probe) (numbers zeros)
     = Inr \<lparr>match = num_lt (computed_distance probe zeros) (Fin (1 / 2)),
            distance = toFixed4 (computed_distance probe zeros)\<rparr> \<and>
   list_all is_finite probe \<and>
   compareFaceEmbeddings (\<lambda>v. NaN) (numbers probe) (numbers probe)
     = Inr \<lparr>match = True, distance = Fin 0\<rparr>"
proof -
  have len: "length probe = 128" "length zeros = 128"
    by (simp_all add: probe_def zeros_def)
  have fin: "list_all is_finite probe"
    by (simp add: probe_def is_finite_def list_all_iff)
  show ?thesis
    using compare_amended [OF len, of "\<lambda>v. NaN"] len fin by simp
qed

lemma foldl_zero_pairs:
  "round_double x = Fin x \<Longrightarrow> foldl add_square (Fin x) (replicate n (Fin 0, Fin 0)) = Fin x"
  by (induction n)
     (simp_all add: add_square_def num_sub_def num_neg_def num_add_def Math_pow2_def)

lemma rd_probe: "round_double (16383 / 32768) = Fin (16383 / 32768)"
  using round_double_dyadic [of 16383 15] by simp

lemma rd_probe_sq: "round_double (268402689 / 1073741824) = Fin (268402689 / 1073741824)"
  using round_double_dyadic [of 268402689 30] by simp

lemma rd_half: "round_double (1 / 2) = Fin (1 / 2)"
  using round_double_dyadic [of 1 1] by simp

lemma rd_quarter: "round_double (1 / 4) = Fin (1 / 4)"
  using round_double_dyadic [of 1 2] by simp

lemma probe_distance: "computed_distance probe zeros = Fin (16383 / 32768)"
proof -
  have z: "zip probe zeros = (Fin (16383 / 32768), Fin 0) # replicate 127 (Fin 0, Fin 0)"
  proof -
    have "(128::nat) = Suc 127" by simp
    then have zs: "zeros = Fin 0 # replicate 127 (Fin 0)"
      unfolding zeros_def by (simp only: replicate_Suc)
    show ?thesis unfolding zs probe_def by (simp add: zip_replicate)
  qed
  have first: "add_square (Fin 0) (Fin (16383 / 32768), Fin 0) = Fin (268402689 / 1073741824)"
    by (simp add: add_square_def num_sub_def num_neg_def num_add_def Math_pow2_def
        rd_probe rd_probe_sq)
  have "sqrt (268402689 / 1073741824 :: real) = 16383 / 32768"
    using real_sqrt_abs [of "16383 / 32768 :: real"] by (simp add: power2_eq_square)
  then have root: "num_sqrt (Fin (268402689 / 1073741824)) = Fin (16383 / 32768)"
    unfolding num_sqrt_def by (simp only: js_num.case rd_probe) simp
  show ?thesis
    unfolding computed_distance_def z
    by (simp add: first foldl_zero_pairs rd_probe_sq root)
qed

lemma probe_rounded: "toFixed4 (Fin (16383 / 32768)) = Fin (1 / 2)"
proof -
  have "\<lfloor>(16383 / 32768 :: real) * 10000 + 1 / 2\<rfloor> = 5000"
    by (simp add: floor_eq_iff)
  then show ?thesis
    unfolding toFixed4_def by (simp add: rd_half)
qed

lemma rd_edge_x:
  "round_double (8076799387264615 / 18014398509481984)
     = Fin (8076799387264615 / 18014398509481984)"
  using round_double_dyadic [of 8076799387264615 54] by simp

lemma rd_edge_y:
  "round_double (1993423567163325 / 9007199254740992)
     = Fin (1993423567163325 / 9007199254740992)"
  using round_double_dyadic [of 1993423567163325 53] by simp

lemma rd_edge_xx:
  "round_double (8076799387264615 / 18014398509481984 * (8076799387264615 / 18014398509481984))
     = Fin (7242505300166575 / 36028797018963968)"
proof -
  have "round_half_even
          (8076799387264615 / 18014398509481984 * (8076799387264615 / 18014398509481984) * 2 ^ (3 + 52))
        = 7242505300166575"
    by (simp add: round_half_even_def Let_def)
  from round_double_small [of 3 _ 7242505300166575, OF _ _ _ this [symmetric]]
  show ?thesis by simp
qed

lemma rd_edge_yy:
  "round_double (1993423567163325 / 9007199254740992 * (1993423567163325 / 9007199254740992))
     = Fin (7058775818297667 / 144115188075855872)"
proof -
  have "round_half_even
          (1993423567163325 / 9007199254740992 * (1993423567163325 / 9007199254740992) * 2 ^ (5 + 52))
        = 7058775818297667"
    by (simp add: round_half_even_def Let_def)
  from round_double_small [of 5 _ 7058775818297667, OF _ _ _ this [symmetric]]
  show ?thesis by simp
qed

lemma rd_edge_xx_exact:
  "round_double (7242505300166575 / 36028797018963968) = Fin (7242505300166575 / 36028797018963968)"
  using round_double_dyadic [of 7242505300166575 55] by simp

lemma rd_edge_sum:
  "round_double (7242505300166575 / 36028797018963968 + 7058775818297667 / 144115188075855872)
     = Fin (1 / 4)"
proof -
  have "round_half_even
          ((7242505300166575 / 36028797018963968 + 7058775818297667 / 144115188075855872) * 2 ^ (3 + 52))
        = 9007199254740992"
    by (simp add: round_half_even_def Let_def)
  from round_double_small [of 3 _ 9007199254740992, OF _ _ _ this [symmetric]]
  show ?thesis by simp
qed

lemma edge_distance: "computed_distance edge zeros = Fin (1 / 2)"
proof -
  have n: "(128::nat) = Suc (Suc 126)" by simp
  have zs: "zeros = Fin 0 # Fin 0 # replicate 126 (Fin 0)"
    unfolding zeros_def n by (simp only: replicate_Suc)
  have z: "zip edge zeros
      = (Fin (8076799387264615 / 18014398509481984), Fin 0) #
        (Fin (1993423567163325 / 9007199254740992), Fin 0) # replicate 126 (Fin 0, Fin 0)"
    unfolding zs edge_def by (simp add: zip_replicate)
  have sub: "\<And>v. num_sub (Fin v) (Fin 0) = round_double v"
    by (simp add: num_sub_def num_neg_def num_add_def)
  have sq_x: "Math_pow2 (Fin (8076799387264615 / 18014398509481984))
      = Fin (7242505300166575 / 36028797018963968)"
    unfolding Math_pow2_def by (simp only: js_num.case rd_edge_xx)
  have sq_y: "Math_pow2 (Fin (1993423567163325 / 9007199254740992))
      = Fin (7058775818297667 / 144115188075855872)"
    unfolding Math_pow2_def by (simp only: js_num.case rd_edge_yy)
  have add0: "num_add (Fin 0) (Fin (7242505300166575 / 36028797018963968))
      = Fin (7242505300166575 / 36028797018963968)"
    unfolding num_add_def by (simp only: prod.case js_num.case add_0 rd_edge_xx_exact)
  have add1: "num_add (Fin (7242505300166575 / 36028797018963968))
                (Fin (7058775818297667 / 144115188075855872)) = Fin (1 / 4)"
    unfolding num_add_def by (simp only: prod.case js_num.case rd_edge_sum)
  have first: "add_square (Fin 0) (Fin (8076799387264615 / 18014398509481984), Fin 0)
      = Fin (7242505300166575 / 36028797018963968)"
    unfolding add_square_def fst_conv snd_conv sub rd_edge_x sq_x add0 ..
  have second: "add_square (Fin (7242505300166575 / 36028797018963968))
                  (Fin (1993423567163325 / 9007199254740992), Fin 0)
      = Fin (1 / 4)"
    unfolding add_square_def fst_conv snd_conv sub rd_edge_y sq_y add1 ..
  have "sqrt (1 / 4 :: real) = 1 / 2"
    using real_sqrt_abs [of "1 / 2 :: real"] by (simp add: power2_eq_square)
  then have root: "num_sqrt (Fin (1 / 4)) = Fin (1 / 2)"
    unfolding num_sqrt_def by (simp only: js_num.case rd_half) simp
  show ?thesis
    unfolding computed_distance_def z
    by (simp add: first second foldl_zero_pairs rd_quarter root)
qed

lemma half_rounded: "toFixed4 (Fin (1 / 2)) = Fin (1 / 2)"
proof -
  have "\<lfloor>(1 / 2 :: real) * 10000 + 1 / 2\<rfloor> = 5000"
    by (simp add: floor_eq_iff)
  then show ?thesis
    unfolding toFixed4_def by (simp add: rd_half)
qed

text \<open>
  The claim as worded fails in two ways. The descriptor \<open>probe\<close> is at distance
  16383/32768 from the zero descriptor: the returned distance is 0.5 and the match is
  true, while 0.5 < 0.5 is false. The descriptor \<open>edge\<close> is at a Euclidean distance below
  0.5 from the zero descriptor, yet the sum of the two rounded squares is the double
  0.25, the computed distance is 0.5 and the match is false.
\<close>

theorem compare_counterexample:
  "compareFaceEmbeddings (\<lambda>v. NaN) (numbers probe) (numbers zeros)
     = Inr \<lparr>match = True, distance = Fin (1 / 2)\<rparr> \<and>
   num_lt (Fin (1 / 2)) (Fin (1 / 2)) = False \<and>
   sqrt ((8076799387264615 / 18014398509481984) ^ 2 + (1993423567163325 / 9007199254740992) ^ 2)
     < (1 / 2 :: real) \<and>
   compareFaceEmbeddings (\<lambda>v. NaN) (numbers edge) (numbers zeros)
     = Inr \<lparr>match = False, distance = Fin (1 / 2)\<rparr>"
proof -
  have len: "length probe = 128" "length edge = 128" "length zeros = 128"
    by (simp_all add: probe_def edge_def zeros_def)
  have exact: "sqrt ((8076799387264615 / 18014398509481984) ^ 2
                   + (1993423567163325 / 9007199254740992) ^ 2) < (1 / 2 :: real)"
    by (rule real_less_lsqrt) (simp_all add: power2_eq_square)
  show ?thesis
    using exact
    by (simp add: compare_numbers len probe_distance probe_rounded edge_distance half_rounded
        num_lt_def)
qed







section \<open>Liveness\<close>

lemma totalMovement_zip:
  "length ps \<le> length cs \<Longrightarrow>
   totalMovement ps cs moved
     = Inr (foldl (\<lambda>moved (p, c). num_add moved (displacement p c)) moved (zip ps cs))"
  by (induction ps cs moved rule: totalMovement.induct)
     (simp_all add: displacement_def Let_def)

lemma checkLiveness_qualifies:
  "landmarks_cover (frame, prev) \<Longrightarrow>
   \<exists>r. checkLiveness frame prev = Inr (qualifies (frame, prev), r)"
  by (auto simp: checkLiveness_def qualifies_def landmarks_cover_def mean_movement_def
        totalMovement_zip Let_def split: option.splits)

lemma livenessLoop_count:
  "\<forall>t \<in> set turns. landmarks_cover t \<Longrightarrow>
   livenessLoop turns n = Inr (n + length (filter qualifies turns))"
proof (induction turns arbitrary: n)
  case Nil
  then show ?case by simp
next
  case (Cons t turns)
  obtain frame prev where t: "t = (frame, prev)" by (cases t)
  from Cons.prems t obtain r where "checkLiveness frame prev = Inr (qualifies (frame, prev), r)"
    using checkLiveness_qualifies by fastforce
  with Cons t show ?case by simp
qed

text \<open>
  C9, amended. The liveness check takes three turns, each one a frame together with the
  previous detection that is stored when the turn runs (the detection of the last
  processed video frame, not the previous sample). A turn qualifies when a face is
  detected with a bounding box not below 100 by 100 pixels, a confidence not below the
  double 0.8, and either no stored previous detection or a mean landmark displacement from
  it, in double arithmetic, not below the double 0.1. When each frame has a landmark for
  every landmark of its previous detection, the loop counts the qualifying turns, and
  the capture goes on past the liveness check exactly when at least two turns
  qualify.
\<close>

theorem liveness_amended:
  assumes "landmarks_cover turn1" "landmarks_cover turn2" "landmarks_cover turn3"
  shows "livenessLoop [turn1, turn2, turn3] 0
           = Inr (length (filter qualifies [turn1, turn2, turn3])) \<and>
         (handleCapture coerce mode existing turn1 turn2 turn3 final \<noteq> Inr LivenessFailed)
           = (2 \<le> length (filter qualifies [turn1, turn2, turn3]))"
proof -
  have loop: "livenessLoop [turn1, turn2, turn3] 0
           = Inr (length (filter qualifies [turn1, turn2, turn3]))"
    using livenessLoop_count [of "[turn1, turn2, turn3]" 0] assms by simp
  have "(handleCapture coerce mode existing turn1 turn2 turn3 final \<noteq> Inr LivenessFailed)
           = (2 \<le> length (filter qualifies [turn1, turn2, turn3]))"
    unfolding handleCapture_def loop
    by (simp add: Let_def not_less split: option.splits sum.splits)
  with loop show ?thesis by blast
qed

lemma rd_one: "round_double 1 = Fin 1"
  using round_double_int [of 1] by simp

lemma displacement_moved: "displacement (Fin 0, Fin 0) (Fin 1, Fin 0) = Fin 1"
  by (simp add: displacement_def num_sub_def num_neg_def num_add_def num_mul_def num_sqrt_def
      rd_one)

lemma displacement_still: "displacement (Fin 1, Fin 0) (Fin 1, Fin 0) = Fin 0"
  by (simp add: displacement_def num_sub_def num_neg_def num_add_def num_mul_def num_sqrt_def)

lemma foldl_ones:
  assumes "displacement p c = Fin 1" and "k + n < 1000"
  shows "foldl (\<lambda>moved (p, c). num_add moved (displacement p c)) (Fin (real k)) (replicate n (p, c))
           = Fin (real (k + n))"
  using assms(2)
proof (induction n arbitrary: k)
  case 0
  then show ?case by simp
next
  case (Suc n)
  have "\<bar>int (Suc k)\<bar> < 2 ^ 53" using Suc.prems by simp
  from round_double_int [OF this]
  have step: "num_add (Fin (real k)) (Fin 1) = Fin (real (Suc k))"
    by (simp add: num_add_def add.commute)
  from Suc.prems have "Suc k + n < 1000" by simp
  from Suc.IH [OF this] show ?case by (simp add: assms(1) step)
qed

lemma foldl_stills:
  assumes "displacement p c = Fin 0"
  shows "foldl (\<lambda>moved (p, c). num_add moved (displacement p c)) (Fin 0) (replicate n (p, c)) = Fin 0"
  by (induction n) (simp_all add: assms num_add_def)

lemma mean_moved: "mean_movement (landmarks (face_at 0)) (landmarks (face_at 1)) = Fin 1"
proof -
  have "foldl (\<lambda>moved (p, c). num_add moved (displacement p c)) (Fin (real (0::nat)))
          (replicate 68 ((Fin 0, Fin 0), (Fin 1, Fin 0))) = Fin (real (0 + 68 :: nat))"
    by (rule foldl_ones [OF displacement_moved]) simp
  then show ?thesis
    by (simp add: mean_movement_def face_at_def zip_replicate num_div_count_def rd_one)
qed

lemma mean_still: "mean_movement (landmarks (face_at 1)) (landmarks (face_at 1)) = Fin 0"
  by (simp add: mean_movement_def face_at_def zip_replicate foldl_stills [OF displacement_still]
      num_div_count_def)

lemma face_at_checks:
  "\<not> num_lt (box_width (face_at x)) (Fin 100)" "\<not> num_lt (box_height (face_at x)) (Fin 100)"
  "\<not> num_lt (score (face_at x)) literal_0_8"
  by (simp_all add: face_at_def num_lt_def literal_0_8_def)

lemma moved_turn:
  "landmarks_cover (Some (face_at 1), Some (face_at 0))"
  "qualifies (Some (face_at 1), Some (face_at 0))"
  by (simp_all add: landmarks_cover_def qualifies_def face_at_checks mean_moved)
     (simp_all add: face_at_def num_lt_def literal_0_1_def)

lemma rd_nudge: "round_double nudge = Fin nudge"
  unfolding nudge_def using round_double_dyadic [of 1914029841632461 48] by simp

lemma rd_nudge_sq: "round_double (nudge * nudge) = Fin nudge_square"
proof -
  have "round_half_even
          (1914029841632461 / 281474976710656 * (1914029841632461 / 281474976710656) * 2 ^ (52 - 5))
        = 6507701461550368"
    by (simp add: round_half_even_def Let_def)
  from round_double_large [of 5 _ 6507701461550368, OF _ _ _ this [symmetric]]
  show ?thesis unfolding nudge_def nudge_square_def by simp
qed

lemma rd_nudge_sq_exact: "round_double nudge_square = Fin nudge_square"
  unfolding nudge_square_def using round_double_dyadic [of 203365670673449 42] by simp

lemma rd_nudge_root: "round_double (sqrt nudge_square) = Fin nudge"
proof -
  define r :: real where "r = sqrt (203365670673449 / 4398046511104)"
  have lo: "(7656119366529843 + 1 / 2) / 2 ^ 50 < r"
    unfolding r_def by (rule real_less_rsqrt) (simp add: power2_eq_square)
  have hi: "r < (7656119366529844 + 1 / 2) / 2 ^ 50"
    unfolding r_def by (rule real_less_lsqrt) (simp_all add: power2_eq_square)
  have "real_of_int 7656119366529844 - 1 / 2 < r * 2 ^ (52 - 2)"
    using lo by (simp add: field_simps)
  moreover have "r * 2 ^ (52 - 2) < real_of_int 7656119366529844 + 1 / 2"
    using hi by (simp add: field_simps)
  ultimately have n: "7656119366529844 = round_half_even (r * 2 ^ (52 - 2))"
    by (rule round_half_even_between [symmetric])
  have "2 ^ 2 \<le> \<bar>r\<bar>" "\<bar>r\<bar> < 2 * 2 ^ 2"
    using lo hi by simp_all
  from round_double_large [OF this _ n]
  show ?thesis unfolding r_def nudge_def nudge_square_def by simp
qed

lemma rd_nudge_mean: "round_double (nudge / 68) = literal_0_1"
proof -
  have "round_half_even (1914029841632461 / 281474976710656 / 68 * 2 ^ (4 + 52))
        = 7205759403792794"
    by (simp add: round_half_even_def Let_def)
  from round_double_small [of 4 _ 7205759403792794, OF _ _ _ this [symmetric]]
  show ?thesis unfolding nudge_def literal_0_1_def by simp
qed

lemma rd_nudge_neg: "round_double (- nudge) = Fin (- nudge)"
  unfolding nudge_def using round_double_dyadic [of "- 1914029841632461" 48] by simp

lemma nudge_square_pos: "\<not> nudge_square < 0"
  by (simp add: nudge_square_def)

lemma displacement_nudged:
  "displacement (Fin 0, Fin 0) (Fin nudge, Fin 0) = Fin nudge"
  "displacement (Fin nudge, Fin 0) (Fin 0, Fin 0) = Fin nudge"
  "displacement (Fin 0, Fin 0) (Fin 0, Fin 0) = Fin 0"
  by (simp_all add: displacement_def Let_def num_sub_def num_neg_def num_add_def num_mul_def
      num_sqrt_def rd_nudge rd_nudge_neg rd_nudge_sq rd_nudge_sq_exact rd_nudge_root
      nudge_square_pos)

lemma foldl_rest:
  "foldl (\<lambda>moved (p, c). num_add moved (displacement p c)) (Fin nudge)
     (replicate n ((Fin 0, Fin 0), (Fin 0, Fin 0))) = Fin nudge"
  by (induction n) (simp_all add: displacement_nudged num_add_def rd_nudge)

lemma mean_nudged:
  "mean_movement (landmarks (face_at 0)) (landmarks face_nudged) = literal_0_1"
  "mean_movement (landmarks face_nudged) (landmarks (face_at 0)) = literal_0_1"
proof -
  have n: "(68::nat) = Suc 67" by simp
  have l: "landmarks (face_at 0) = (Fin 0, Fin 0) # replicate 67 (Fin 0, Fin 0)"
    unfolding face_at_def n by (simp only: replicate_Suc detection.simps)
  have first: "num_add (Fin 0) (Fin nudge) = Fin nudge"
    by (simp add: num_add_def rd_nudge)
  show "mean_movement (landmarks (face_at 0)) (landmarks face_nudged) = literal_0_1"
    unfolding l
    by (simp add: mean_movement_def face_nudged_def zip_replicate displacement_nudged first
        foldl_rest num_div_count_def rd_nudge_mean)
  show "mean_movement (landmarks face_nudged) (landmarks (face_at 0)) = literal_0_1"
    unfolding l
    by (simp add: mean_movement_def face_nudged_def zip_replicate displacement_nudged first
        foldl_rest num_div_count_def rd_nudge_mean)
qed

lemma nudged_turns:
  "landmarks_cover (Some face_nudged, Some (face_at 0))"
  "landmarks_cover (Some (face_at 0), Some face_nudged)"
  "qualifies (Some face_nudged, Some (face_at 0))"
  "qualifies (Some (face_at 0), Some face_nudged)"
  "\<not> spec_qualifies (Some (face_at 0)) (Some face_nudged)"
  "\<not> spec_qualifies (Some face_nudged) (Some (face_at 0))"
  by (simp_all add: landmarks_cover_def qualifies_def spec_qualifies_def mean_nudged
      face_at_checks)
    (simp_all add: face_at_def face_nudged_def num_lt_def literal_0_1_def literal_0_8_def)

lemma unstored_turn:
  "landmarks_cover (Some (face_at 1), None)"
  "qualifies (Some (face_at 1), None)"
  by (simp_all add: landmarks_cover_def qualifies_def face_at_checks)

text \<open>
  The stored previous detection is not the previous sample: three identical frames, all
  moved against the stored detection, qualify three times, where only the first one
  moved relative to the sample before it. A mean displacement equal to the threshold
  qualifies, though it does not exceed the threshold: three frames that each differ
  from the frame before by a mean of exactly the double 0.1 qualify three times. And
  with no stored previous detection three identical frames qualify three times with
  no motion at all.
\<close>

theorem liveness_counterexample:
  "livenessLoop [(Some (face_at 1), Some (face_at 0)), (Some (face_at 1), Some (face_at 0)),
                 (Some (face_at 1), Some (face_at 0))] 0 = Inr 3 \<and>
   spec_qualifying (Some (face_at 0)) [Some (face_at 1), Some (face_at 1), Some (face_at 1)] = 1 \<and>
   mean_movement (landmarks (face_at 0)) (landmarks face_nudged) = literal_0_1 \<and>
   mean_movement (landmarks face_nudged) (landmarks (face_at 0)) = literal_0_1 \<and>
   livenessLoop [(Some face_nudged, Some (face_at 0)), (Some (face_at 0), Some face_nudged),
                 (Some face_nudged, Some (face_at 0))] 0 = Inr 3 \<and>
   spec_qualifying (Some (face_at 0)) [Some face_nudged, Some (face_at 0), Some face_nudged] = 0 \<and>
   livenessLoop [(Some (face_at 1), None), (Some (face_at 1), None),
                 (Some (face_at 1), None)] 0 = Inr 3 \<and>
   spec_qualifying None [Some (face_at 1), Some (face_at 1), Some (face_at 1)] = 0"
proof -
  have "livenessLoop [(Some (face_at 1), Some (face_at 0)), (Some (face_at 1), Some (face_at 0)),
                 (Some (face_at 1), Some (face_at 0))] 0 = Inr 3"
    using livenessLoop_count [of "[(Some (face_at 1), Some (face_at 0)),
        (Some (face_at 1), Some (face_at 0)), (Some (face_at 1), Some (face_at 0))]" 0] moved_turn
    by simp
  moreover have "livenessLoop [(Some face_nudged, Some (face_at 0)),
                 (Some (face_at 0), Some face_nudged), (Some face_nudged, Some (face_at 0))] 0
                 = Inr 3"
    using livenessLoop_count [of "[(Some face_nudged, Some (face_at 0)),
        (Some (face_at 0), Some face_nudged), (Some face_nudged, Some (face_at 0))]" 0]
      nudged_turns
    by simp
  moreover have "livenessLoop [(Some (face_at 1), None), (Some (face_at 1), None),
                 (Some (face_at 1), None)] 0 = Inr 3"
    using livenessLoop_count [of "[(Some (face_at 1), None), (Some (face_at 1), None),
        (Some (face_at 1), None)]" 0] unstored_turn
    by simp
  moreover have "spec_qualifies (Some (face_at 0)) (Some (face_at 1))"
    by (simp add: spec_qualifies_def face_at_checks mean_moved)
       (simp add: num_lt_def literal_0_1_def)
  moreover have "\<not> spec_qualifies (Some (face_at 1)) (Some (face_at 1))"
    by (simp add: spec_qualifies_def mean_still num_lt_def literal_0_1_def)
  moreover have "\<not> spec_qualifies None (Some (face_at 1))"
    by (simp add: spec_qualifies_def)
  ultimately show ?thesis
    using nudged_turns mean_nudged by simp
qed

text \<open>Two moved frames and one without a face pass the check.\<close>

theorem liveness_amended_witness:
  "landmarks_cover (Some (face_at 1), Some (face_at 0)) \<and>
   landmarks_cover (None, Some (face_at 0)) \<and>
   livenessLoop [(Some (face_at 1), Some (face_at 0)), (Some (face_at 1), Some (face_at 0)),
                 (None, Some (face_at 0))] 0 = Inr 2 \<and>
   handleCapture (\<lambda>v. NaN) Register JNull (Some (face_at 1), Some (face_at 0))
       (Some (face_at 1), Some (face_at 0)) (None, Some (face_at 0)) None
     \<noteq> Inr LivenessFailed"
proof -
  have cov: "landmarks_cover (None, Some (face_at 0))"
    by (simp add: landmarks_cover_def)
  have nq: "\<not> qualifies (None, Some (face_at 0))"
    by (simp add: qualifies_def)
  show ?thesis
    using liveness_amended [OF moved_turn(1) moved_turn(1) cov, of "\<lambda>v. NaN" Register JNull None]
      moved_turn cov nq by simp
qed

section \<open>Properties of the credential authority\<close>

lemma parse_100000: "parseInt10 ''100000'' = Some 100000"
  by code_simp

lemma split_on_nosep: "sep \<notin> set a \<Longrightarrow> split_on sep a = [a]"
  by (induction a) auto

lemma split_on_append:
  "sep \<notin> set a \<Longrightarrow> split_on sep (a @ sep # rest) = a # split_on sep rest"
  by (induction a) auto

lemma hex_digit_in: "n < 16 \<Longrightarrow> is_hex_char (hex_digit n)"
  unfolding hex_digit_def is_hex_char_def by (rule nth_mem) simp

lemma hex_digit_not_dollar: "n < 16 \<Longrightarrow> hex_digit n \<noteq> CHR ''$''"
  using hex_digit_in [of n] by (auto simp: is_hex_char_def)

lemma byte_nibbles: "unat (b::byte) div 16 < 16" "unat b mod 16 < 16"
proof -
  have "unat b < 256" using unsigned_less [of b] by simp
  then show "unat b div 16 < 16" by simp
  show "unat b mod 16 < 16" by simp
qed

lemma hex_byte_no_dollar: "CHR ''$'' \<notin> set (hex_byte b)"
proof -
  have "hex_digit (unat b div 16) \<noteq> CHR ''$''" "hex_digit (unat b mod 16) \<noteq> CHR ''$''"
    using byte_nibbles [of b] hex_digit_not_dollar by blast+
  then show ?thesis
    by (auto simp: hex_byte_def)
qed

lemma to_hex_no_dollar: "CHR ''$'' \<notin> set (to_hex bs)"
  by (induction bs) (simp_all add: to_hex_def hex_byte_no_dollar)

lemma generateSalt_no_dollar: "CHR ''$'' \<notin> set (generateSalt rnd)"
  by (simp add: generateSalt_def to_hex_no_dollar)

lemma split_hash:
  assumes "CHR ''$'' \<notin> set salt" and "CHR ''$'' \<notin> set digest"
  shows "split_on CHR ''$'' (''$pbkdf2$100000$'' @ salt @ ''$'' @ digest)
           = [[], ''pbkdf2'', ''100000'', salt, digest]"
proof -
  have "split_on CHR ''$'' (''$pbkdf2$100000$'' @ salt @ ''$'' @ digest)
          = [] # ''pbkdf2'' # ''100000'' # split_on CHR ''$'' (salt @ CHR ''$'' # digest)"
    by simp
  also have "split_on CHR ''$'' (salt @ CHR ''$'' # digest) = [salt, digest]"
    using assms by (simp add: split_on_append split_on_nosep)
  finally show ?thesis .
qed

lemma hashPassword_value:
  "hashPassword pbkdf2 rnd p None
     = Inr (''$pbkdf2$100000$'' @ generateSalt rnd @ ''$'' @ to_hex (pbkdf2 p (generateSalt rnd) 100000))"
  by (simp add: hashPassword_def deriveBits_def Let_def)

lemma verify_hashed:
  assumes "CHR ''$'' \<notin> set salt" and "CHR ''$'' \<notin> set digest"
  shows "verifyPassword pbkdf2 q (''$pbkdf2$100000$'' @ salt @ ''$'' @ digest)
           = Inr (to_hex (pbkdf2 q salt 100000) = digest)"
proof -
  have pre: "prefix ''$pbkdf2$'' (''$pbkdf2$100000$'' @ salt @ ''$'' @ digest)"
    by simp
  show ?thesis
    unfolding verifyPassword_def split_hash [OF assms] Let_def
    using pre by (simp add: parse_100000 deriveBits_def)
qed

lemma hex_digit_inj: "m < 16 \<Longrightarrow> n < 16 \<Longrightarrow> hex_digit m = hex_digit n \<Longrightarrow> m = n"
proof -
  assume m: "m < 16" and n: "n < 16" and eq: "hex_digit m = hex_digit n"
  have d: "distinct ''0123456789abcdef''" by simp
  have "length ''0123456789abcdef'' = 16" by simp
  with m n eq d show "m = n"
    unfolding hex_digit_def by (metis nth_eq_iff_index_eq)
qed

lemma hex_byte_inj: "hex_byte a = hex_byte b \<Longrightarrow> a = b"
proof -
  assume eq: "hex_byte a = hex_byte b"
  note la = byte_nibbles [of a] and lb = byte_nibbles [of b]
  from eq have "hex_digit (unat a div 16) = hex_digit (unat b div 16)"
    and "hex_digit (unat a mod 16) = hex_digit (unat b mod 16)"
    by (simp_all add: hex_byte_def)
  then have "unat a div 16 = unat b div 16" and "unat a mod 16 = unat b mod 16"
    using la lb hex_digit_inj by blast+
  then have "unat a = unat b"
    by (metis div_mult_mod_eq)
  then show "a = b" by (simp add: word_unat_eq_iff)
qed

lemma to_hex_inj: "to_hex xs = to_hex ys \<Longrightarrow> xs = ys"
proof (induction xs arbitrary: ys)
  case Nil
  then show ?case by (cases ys) (simp_all add: to_hex_def hex_byte_def)
next
  case (Cons x xs)
  then show ?case
  proof (cases ys)
    case Nil
    with Cons.prems show ?thesis by (simp add: to_hex_def hex_byte_def)
  next
    case (Cons y ys')
    with Cons.prems have "hex_byte x @ to_hex xs = hex_byte y @ to_hex ys'"
      by (simp add: to_hex_def)
    moreover have "length (hex_byte x) = length (hex_byte y)" by (simp add: hex_byte_def)
    ultimately have "hex_byte x = hex_byte y" and "to_hex xs = to_hex ys'" by simp_all
    with Cons.IH Cons show ?thesis by (simp add: hex_byte_inj)
  qed
qed

text \<open>
  \<open>hashPassword\<close> returns a hash that \<open>verifyPassword\<close> accepts for the same password,
  whatever the key derivation is; for any other password the answer of \<open>verifyPassword\<close>
  is the equality of the bits that the key derivation gives for the two passwords under
  the generated salt.
\<close>

lemma verifyPassword_hashPassword:
  "\<exists>h. hashPassword pbkdf2 rnd p None = Inr h \<and> verifyPassword pbkdf2 p h = Inr True"
proof -
  have "verifyPassword pbkdf2 p
          (''$pbkdf2$100000$'' @ generateSalt rnd @ ''$'' @
           to_hex (pbkdf2 p (generateSalt rnd) 100000)) = Inr True"
    unfolding verify_hashed [OF generateSalt_no_dollar to_hex_no_dollar] by simp
  then show ?thesis
    unfolding hashPassword_value by blast
qed

lemma verifyPassword_other:
  assumes "hashPassword pbkdf2 rnd p None = Inr h"
  shows "verifyPassword pbkdf2 q h
           = Inr (pbkdf2 q (generateSalt rnd) 100000 = pbkdf2 p (generateSalt rnd) 100000)"
proof -
  from assms have h: "h = ''$pbkdf2$100000$'' @ generateSalt rnd @ ''$'' @
                          to_hex (pbkdf2 p (generateSalt rnd) 100000)"
    unfolding hashPassword_value by simp
  show ?thesis
    unfolding h verify_hashed [OF generateSalt_no_dollar to_hex_no_dollar]
    using to_hex_inj by auto
qed

subsection \<open>The login action\<close>

lemma record_login_attempt_other [simp]:
  "users (record_login_attempt db l i ua ok t) = users db"
  "sessions (record_login_attempt db l i ua ok t) = sessions db"
  by (simp_all add: record_login_attempt_def)

lemma insert_activity_log_other [simp]:
  "users (insert_activity_log db i a r) = users db"
  "sessions (insert_activity_log db i a r) = sessions db"
  by (simp_all add: insert_activity_log_def)

lemma update_users_sessions [simp]:
  "sessions (update_password_hash db i h) = sessions db"
  "sessions (update_device_fingerprint db i fp) = sessions db"
  by (simp_all add: update_password_hash_def update_device_fingerprint_def)

lemma update_device_fingerprint_hashes [simp]:
  "map password_hash (users (update_device_fingerprint db i fp)) = map password_hash (users db)"
  by (simp add: update_device_fingerprint_def comp_def if_distrib [of password_hash] cong: if_cong)


lemma delete_sessions_users [simp]: "users (delete_sessions db i) = users db"
  by (simp add: delete_sessions_def)

lemma delete_sessions_account [simp]:
  "filter (\<lambda>s. user_id s = i) (sessions (delete_sessions db i)) = []"
  by (simp add: delete_sessions_def filter_empty_conv)

lemma insert_session_refresh_columns:
  "insert_session db
     [(''user_id'', u), (''token'', t), (''refresh_token'', r), (''fingerprint'', f),
      (''user_agent'', ua), (''ip_address'', ip), (''expires_at'', e),
      (''refresh_expires_at'', re)] = None"
  by (simp add: insert_session_def sessions_columns_def)

lemma issue_session_fails:
  "issue_session env req usr fp l db calls
     = ((500, SessionCreationFailed),
        delete_sessions
          (record_login_attempt db l (clientIP req) (userAgent req) True (now env)) (uid usr),
        calls @ [RpcRecordLoginAttempt True, DeleteSessions, InsertSession])"
  by (simp add: issue_session_def insert_session_refresh_columns Let_def)

lemma check_device_keeps:
  "map password_hash (users (fst (snd (check_device env req usr fp l db calls))))
     = map password_hash (users db)"
  "count_list (snd (snd (check_device env req usr fp l db calls))) UpdatePasswordHash
     = count_list calls UpdatePasswordHash"
  "fst (fst (check_device env req usr fp l db calls)) \<noteq> 200"
  by (simp_all add: check_device_def issue_session_fails Let_def)

lemma check_password_status:
  "fst (fst (check_password k env req usr fp l pw db calls)) \<noteq> 200"
  by (simp add: check_password_def check_device_keeps split: sum.splits)

lemma login_action_status: "fst (fst (login_action k env req db)) \<noteq> 200"
  by (simp add: login_action_def check_password_status Let_def split: option.splits)


lemma check_password_legacy:
  assumes "\<not> prefix ''$pbkdf2$'' (password_hash usr)"
    and "hashPassword k (salt_rnd env) (password_hash usr) None = Inr h"
  shows "check_password k env req usr fp l (password_hash usr) db calls
           = check_device env req usr fp l (update_password_hash db (uid usr) h)
               (calls @ [UpdatePasswordHash])"
  using assms by (simp add: check_password_def verifyPassword_def)







text \<open>
  C6, amended. For every login request that passes the blacklist check, the CSRF
  check and the check that login and password are not empty: with at least 5 failed
  attempts in the last 15 minutes for the sanitized login or for the caller's address,
  the answer is 429, the store is unchanged and the users table is never read, whatever
  the password is.
\<close>

theorem rate_limit_after_gates:
  assumes "\<not> is_ip_blocked db (clientIP req) (now env)"
    and "body req = Some b"
    and "validateCSRFToken (header_csrf req) (csrf_token b)"
    and "sanitizeInput (body_login b) \<noteq> []"
    and "sanitizeInput (body_password b) \<noteq> []"
    and "5 \<le> length (filter (\<lambda>a. (attempt_login a = sanitizeInput (body_login b) \<or>
                                  attempt_ip_address a = Some (clientIP req)) \<and>
                                 success a = False \<and> now env - 900000 < created_at a)
                        (login_attempts db))"
  shows "login_action pbkdf2 env req db
           = ((429, RateLimited), db, [RpcIsIpBlocked, RpcIsLoginRateLimited])"
  using assms
  by (simp add: login_action_def is_login_rate_limited_def recent_failures_def)

lemma sanitize_bob: "sanitizeInput (Some ''bob'') = ''bob''"
  by code_simp

lemma sanitize_hunter2: "sanitizeInput (Some ''hunter2'') = ''hunter2''"
  by code_simp

lemma sanitize_spaced_bob: "sanitizeInput (Some '' bob'') = ''bob''"
  by code_simp

lemma sanitize_spaced_hunter2: "sanitizeInput (Some '' hunter2'') = ''hunter2''"
  by code_simp

lemma sanitizeInput_empty: "sanitizeInput (Some []) = []"
  by code_simp

text \<open>Five recent failures for "bob", then a request with bob's password.\<close>

theorem rate_limit_after_gates_witness:
  "\<not> is_ip_blocked limited_db (clientIP login_request) (now example_env) \<and>
   validateCSRFToken (header_csrf login_request) (Some ''tok'') \<and>
   5 \<le> length (filter (\<lambda>a. (attempt_login a = ''bob'' \<or>
                                  attempt_ip_address a = Some (clientIP login_request)) \<and>
                                 success a = False \<and> now example_env - 900000 < created_at a)
                        (login_attempts limited_db)) \<and>
   select_user limited_db ''bob'' = Some bob \<and>
   verifyPassword example_kdf ''hunter2'' (password_hash bob) = Inr True \<and>
   login_action example_kdf example_env login_request limited_db
     = ((429, RateLimited), limited_db, [RpcIsIpBlocked, RpcIsLoginRateLimited])"
  using rate_limit_after_gates [of limited_db login_request example_env
      "\<lparr>csrf_token = Some ''tok'', body_login = Some ''bob'',
        body_password = Some ''hunter2'', body_fingerprint = None\<rparr>" example_kdf]
  by (simp add: sanitize_bob sanitize_hunter2 login_request_def limited_db_def example_db_def
        example_env_def failed_attempt_def is_ip_blocked_def validateCSRFToken_def
        select_user_def bob_def verifyPassword_def)

text \<open>
  With the same five failures the answer is not always 429: a request with an empty
  password is answered 400, and one without the CSRF header 403. Five failures
  recorded for the login " bob", as a request submits it, do not block that request,
  since the count is made for the sanitized login "bob": the request goes on to the
  lookup of the account.
\<close>

theorem rate_limit_counterexample:
  "5 \<le> length (recent_failures limited_db ''bob'' ''10.0.0.1'' (now example_env)) \<and>
   login_action example_kdf example_env empty_password_request limited_db
     = ((400, FieldsMissing), limited_db, [RpcIsIpBlocked]) \<and>
   login_action example_kdf example_env forged_request limited_db
     = ((403, CsrfRejected), limited_db, [RpcIsIpBlocked]) \<and>
   5 \<le> length (recent_failures spaced_db '' bob'' ''10.0.0.1'' (now example_env)) \<and>
   fst (fst (login_action example_kdf example_env spaced_request spaced_db)) \<noteq> 429 \<and>
   SelectUser \<in> set (snd (snd (login_action example_kdf example_env spaced_request spaced_db)))"
proof -
  have gates: "\<not> is_ip_blocked spaced_db (clientIP spaced_request) (now example_env)"
    "validateCSRFToken (header_csrf spaced_request) (Some ''tok'')"
    "\<not> is_login_rate_limited spaced_db ''bob'' (clientIP spaced_request) (now example_env)"
    "select_user spaced_db ''bob'' = Some bob"
    by (simp_all add: spaced_db_def spaced_request_def login_request_def example_db_def
        example_env_def failed_attempt_def is_ip_blocked_def validateCSRFToken_def
        is_login_rate_limited_def recent_failures_def select_user_def bob_def)
  have run: "login_action example_kdf example_env spaced_request spaced_db
      = check_password example_kdf example_env spaced_request bob None ''bob'' ''hunter2''
          spaced_db [RpcIsIpBlocked, RpcIsLoginRateLimited, SelectUser]"
    using gates
    by (simp add: login_action_def sanitize_spaced_bob sanitize_spaced_hunter2
        spaced_request_def login_request_def Let_def)
  have legacy: "\<not> prefix ''$pbkdf2$'' (password_hash bob)" "password_hash bob = ''hunter2''"
    by (simp_all add: bob_def)
  have step: "check_password example_kdf example_env spaced_request bob None ''bob''
                (password_hash bob) spaced_db [RpcIsIpBlocked, RpcIsLoginRateLimited, SelectUser]
      = check_device example_env spaced_request bob None ''bob''
          (update_password_hash spaced_db (uid bob)
             (''$pbkdf2$100000$'' @ generateSalt (salt_rnd example_env) @ ''$'' @
              to_hex (example_kdf (password_hash bob) (generateSalt (salt_rnd example_env)) 100000)))
          ([RpcIsIpBlocked, RpcIsLoginRateLimited, SelectUser] @ [UpdatePasswordHash])"
    by (rule check_password_legacy [OF legacy(1) hashPassword_value])
  have role: "role bob \<noteq> Student" by (simp add: bob_def)
  have "fst (fst (login_action example_kdf example_env spaced_request spaced_db)) = 500"
    and "SelectUser \<in> set (snd (snd (login_action example_kdf example_env spaced_request spaced_db)))"
    unfolding run legacy(2) [symmetric] step
    using role by (simp_all add: check_device_def issue_session_fails)
  moreover have "5 \<le> length (recent_failures limited_db ''bob'' ''10.0.0.1'' (now example_env))"
    "5 \<le> length (recent_failures spaced_db '' bob'' ''10.0.0.1'' (now example_env))"
    by (simp_all add: recent_failures_def limited_db_def spaced_db_def example_db_def
        example_env_def failed_attempt_def)
  moreover have "login_action example_kdf example_env empty_password_request limited_db
     = ((400, FieldsMissing), limited_db, [RpcIsIpBlocked])"
    by (simp add: login_action_def empty_password_request_def login_request_def limited_db_def
        example_db_def is_ip_blocked_def validateCSRFToken_def sanitizeInput_empty)
  moreover have "login_action example_kdf example_env forged_request limited_db
     = ((403, CsrfRejected), limited_db, [RpcIsIpBlocked])"
    by (simp add: login_action_def forged_request_def login_request_def limited_db_def
        example_db_def is_ip_blocked_def validateCSRFToken_def)
  ultimately show ?thesis by simp
qed







lemma example_gates:
  "\<not> is_ip_blocked example_db (clientIP login_request) (now example_env)"
  "validateCSRFToken (header_csrf login_request) (Some ''tok'')"
  "\<not> is_login_rate_limited example_db ''bob'' (clientIP login_request) (now example_env)"
  "select_user example_db ''bob'' = Some bob"
  "\<not> prefix ''$pbkdf2$'' (password_hash bob)"
  "password_hash bob = ''hunter2''"
  by (simp_all add: login_request_def example_db_def example_env_def is_ip_blocked_def
      validateCSRFToken_def is_login_rate_limited_def recent_failures_def select_user_def bob_def)



text \<open>
  C7. The row that the login action inserts names the columns \<^verbatim>\<open>refresh_token\<close> and
  \<^verbatim>\<open>refresh_expires_at\<close>, which the sessions table does not have: the insert is
  refused. The issue of a session therefore answers 500 after it has recorded the
  successful attempt and deleted the session rows of the account, which is left with
  no session row, and no login request at all is answered 200.
\<close>

theorem session_insert_fails:
  "issue_session env req usr fp l db calls
     = ((500, SessionCreationFailed),
        delete_sessions
          (record_login_attempt db l (clientIP req) (userAgent req) True (now env)) (uid usr),
        calls @ [RpcRecordLoginAttempt True, DeleteSessions, InsertSession]) \<and>
   filter (\<lambda>s. user_id s = uid usr)
     (sessions (fst (snd (issue_session env req usr fp l db calls)))) = [] \<and>
   fst (fst (login_action pbkdf2 env' req' db')) \<noteq> 200"
  by (simp add: issue_session_fails login_action_status)

text \<open>
  The login of "bob" with the right password, who has one session row before: the
  answer is 500 and no session row is left.
\<close>

theorem session_insert_fails_witness:
  "sessions example_db = [old_session] \<and> user_id old_session = uid bob \<and>
   select_user example_db ''bob'' = Some bob \<and>
   verifyPassword example_kdf ''hunter2'' (password_hash bob) = Inr True \<and>
   fst (login_action example_kdf example_env login_request example_db)
     = (500, SessionCreationFailed) \<and>
   sessions (fst (snd (login_action example_kdf example_env login_request example_db))) = [] \<and>
   snd (snd (login_action example_kdf example_env login_request example_db))
     = [RpcIsIpBlocked, RpcIsLoginRateLimited, SelectUser, UpdatePasswordHash,
        RpcRecordLoginAttempt True, DeleteSessions, InsertSession]"
proof -
  have run: "login_action example_kdf example_env login_request example_db
      = check_password example_kdf example_env login_request bob None ''bob'' (password_hash bob)
          example_db [RpcIsIpBlocked, RpcIsLoginRateLimited, SelectUser]"
    using example_gates
    by (simp add: login_action_def sanitize_bob sanitize_hunter2 login_request_def Let_def)
  have role: "role bob \<noteq> Student" by (simp add: bob_def)
  define h where "h = ''$pbkdf2$100000$'' @ generateSalt (salt_rnd example_env) @ ''$'' @
      to_hex (example_kdf (password_hash bob) (generateSalt (salt_rnd example_env)) 100000)"
  have step: "login_action example_kdf example_env login_request example_db
      = issue_session example_env login_request bob None ''bob''
          (update_password_hash example_db (uid bob) h)
          [RpcIsIpBlocked, RpcIsLoginRateLimited, SelectUser, UpdatePasswordHash]"
    unfolding run check_password_legacy [OF example_gates(5) hashPassword_value] h_def
    using role by (simp add: check_device_def)
  have before: "sessions example_db = [old_session]" "user_id old_session = uid bob"
    by (simp_all add: example_db_def old_session_def bob_def)
  from session_insert_fails [of example_env login_request bob None "''bob''"
      "update_password_hash example_db (uid bob) h"
      "[RpcIsIpBlocked, RpcIsLoginRateLimited, SelectUser, UpdatePasswordHash]"
      example_kdf example_env login_request example_db]
  show ?thesis
    unfolding step
    using before example_gates
    by (simp add: delete_sessions_def verifyPassword_def)
qed

section \<open>Properties of the check-in orchestrator\<close>

lemma handlePinSubmit_face:
  assumes "current_user env = Some u" and "length pinCode = 6" and "isMobileDevice env"
    and "select_lesson (lessons env) pinCode (clock env) = Some l"
    and "getCurrentLocation env = Inr location"
    and "userFaceEmbedding env = Some registered"
  shows "handlePinSubmit env pinCode (ui, w) =
           (ui\<lparr>checkResult := None, lessonData := Some l,
               locationData :=
                 Some \<lparr>at_latitude = loc_latitude location, at_longitude = loc_longitude location,
                       loc_distance = calculateDistance env (loc_latitude location)
                                        (loc_longitude location) (latitude l) (longitude l),
                       fakeCheck = detectFakeGPS env\<rparr>,
               step := FaceStep, isChecking := False\<rparr>, w)"
  using assms by (simp add: handlePinSubmit_def Let_def)

lemma handlePinSubmit_no_face:
  assumes "current_user env = Some u" and "length pinCode = 6" and "isMobileDevice env"
    and "select_lesson (lessons env) pinCode (clock env) = Some l"
    and "getCurrentLocation env = Inr location"
    and "userFaceEmbedding env = None"
  shows "handlePinSubmit env pinCode (ui, w) =
           (ui\<lparr>checkResult := Some \<lparr>result_success = False, message = NoFaceId,
                                   status = Some Suspicious\<rparr>,
               lessonData := Some l,
               locationData :=
                 Some \<lparr>at_latitude = loc_latitude location, at_longitude = loc_longitude location,
                       loc_distance = calculateDistance env (loc_latitude location)
                                        (loc_longitude location) (latitude l) (longitude l),
                       fakeCheck = detectFakeGPS env\<rparr>,
               step := ResultStep, isChecking := False\<rparr>,
            w\<lparr>audit := audit w @
                 [\<lparr>actor = u, log_action = ''checkin_failed'', log_lesson = lesson_id l,
                   log_reason = Some ''no_face_id'',
                   log_distance = calculateDistance env (loc_latitude location)
                                    (loc_longitude location) (latitude l) (longitude l)\<rparr>]\<rparr>)"
  using assms by (simp add: handlePinSubmit_def Let_def show_result_def)

text \<open>
  C1, amended. Take a check-in attempt of a logged-in student on a mobile device whose
  PIN finds the lesson and whose position is obtained, at the distance \<open>d\<close> from the
  lesson. With a registered descriptor and a verified face: when the GPS is reported
  fake or \<open>d\<close> is greater than the lesson's radius, the check-in ends in the result
  rejected, the attendance table is left as it was, and one entry, checkin_rejected, is
  added to the audit log. Without a registered descriptor, whatever the GPS data and
  the outcome of a capture are: the check-in ends in the result suspicious, the
  attendance table is left as it was, and one entry, checkin_failed with the reason
  no_face_id, is added to the audit log.
\<close>

theorem gps_rejection_after_face:
  assumes "current_user env = Some u" and "length pinCode = 6" and "isMobileDevice env"
    and "select_lesson (lessons env) pinCode (clock env) = Some l"
    and "getCurrentLocation env = Inr location"
    and "d = calculateDistance env (loc_latitude location) (loc_longitude location)
               (latitude l) (longitude l)"
  shows "(userFaceEmbedding env \<noteq> None \<and> (fst (detectFakeGPS env) \<or> radius_or_default l < d) \<longrightarrow>
          step (fst (checkin_attempt env pinCode (Inr (Captured embedding)) (ui, w))) = ResultStep \<and>
          map_option status
            (checkResult (fst (checkin_attempt env pinCode (Inr (Captured embedding)) (ui, w))))
            = Some (Some Rejected) \<and>
          attendance (snd (checkin_attempt env pinCode (Inr (Captured embedding)) (ui, w)))
            = attendance w \<and>
          audit (snd (checkin_attempt env pinCode (Inr (Captured embedding)) (ui, w)))
            = audit w @
              [\<lparr>actor = u, log_action = ''checkin_rejected'', log_lesson = lesson_id l,
                log_reason = None, log_distance = d\<rparr>]) \<and>
         (userFaceEmbedding env = None \<longrightarrow>
          step (fst (checkin_attempt env pinCode outcome (ui, w))) = ResultStep \<and>
          map_option status (checkResult (fst (checkin_attempt env pinCode outcome (ui, w))))
            = Some (Some Suspicious) \<and>
          attendance (snd (checkin_attempt env pinCode outcome (ui, w))) = attendance w \<and>
          audit (snd (checkin_attempt env pinCode outcome (ui, w)))
            = audit w @
              [\<lparr>actor = u, log_action = ''checkin_failed'', log_lesson = lesson_id l,
                log_reason = Some ''no_face_id'', log_distance = d\<rparr>])"
proof (intro conjI impI)
  assume registered: "userFaceEmbedding env \<noteq> None \<and>
                      (fst (detectFakeGPS env) \<or> radius_or_default l < d)"
  then obtain e where e: "userFaceEmbedding env = Some e" by auto
  note run = handlePinSubmit_face [OF assms(1-5) e]
  from registered assms(6)
  show "step (fst (checkin_attempt env pinCode (Inr (Captured embedding)) (ui, w))) = ResultStep"
    and "map_option status
            (checkResult (fst (checkin_attempt env pinCode (Inr (Captured embedding)) (ui, w))))
            = Some (Some Rejected)"
    and "attendance (snd (checkin_attempt env pinCode (Inr (Captured embedding)) (ui, w)))
            = attendance w"
    and "audit (snd (checkin_attempt env pinCode (Inr (Captured embedding)) (ui, w)))
            = audit w @
              [\<lparr>actor = u, log_action = ''checkin_rejected'', log_lesson = lesson_id l,
                log_reason = None, log_distance = d\<rparr>]"
    unfolding checkin_attempt_def run
    by (auto simp: faceGate_def handleFaceVerified_def completeCheckin_def show_result_def
        Let_def assms(1))
next
  assume none: "userFaceEmbedding env = None"
  note run = handlePinSubmit_no_face [OF assms(1-5) none]
  from assms(6)
  show "step (fst (checkin_attempt env pinCode outcome (ui, w))) = ResultStep"
    and "map_option status (checkResult (fst (checkin_attempt env pinCode outcome (ui, w))))
            = Some (Some Suspicious)"
    and "attendance (snd (checkin_attempt env pinCode outcome (ui, w))) = attendance w"
    and "audit (snd (checkin_attempt env pinCode outcome (ui, w)))
            = audit w @
              [\<lparr>actor = u, log_action = ''checkin_failed'', log_lesson = lesson_id l,
                log_reason = Some ''no_face_id'', log_distance = d\<rparr>]"
    unfolding checkin_attempt_def run
    by simp_all
qed

text \<open>
  C2, as amended. In every check-in the location is measured after the lesson lookup,
  but nothing is decided on it there: with a registered descriptor \<open>handlePinSubmit\<close>
  enters the face step whatever the fake-GPS probe and the distance are, with no result
  and nothing written. The GPS gate is evaluated after the face has been verified:
  the result is rejected when the GPS is fake or the distance exceeds the radius, and
  present otherwise. The order is PinEntry, LessonLookup, FaceGate, GpsGate, Result.
\<close>

theorem face_gate_before_gps_gate:
  assumes "current_user env = Some u" and "length pinCode = 6" and "isMobileDevice env"
    and "select_lesson (lessons env) pinCode (clock env) = Some l"
    and "getCurrentLocation env = Inr location"
    and "userFaceEmbedding env = Some registered"
    and "d = calculateDistance env (loc_latitude location) (loc_longitude location)
               (latitude l) (longitude l)"
  shows "step (fst (handlePinSubmit env pinCode (ui, w))) = FaceStep \<and>
         checkResult (fst (handlePinSubmit env pinCode (ui, w))) = None \<and>
         map_option loc_distance (locationData (fst (handlePinSubmit env pinCode (ui, w)))) = Some d \<and>
         map_option fakeCheck (locationData (fst (handlePinSubmit env pinCode (ui, w))))
           = Some (detectFakeGPS env) \<and>
         snd (handlePinSubmit env pinCode (ui, w)) = w \<and>
         map_option status
           (checkResult (fst (checkin_attempt env pinCode (Inr (Captured embedding)) (ui, w))))
           = Some (Some (if fst (detectFakeGPS env) \<or> radius_or_default l < d
                         then Rejected else Present))"
  using assms(7) unfolding checkin_attempt_def handlePinSubmit_face [OF assms(1-6)]
  by (auto simp: faceGate_def handleFaceVerified_def completeCheckin_def
        show_result_def Let_def assms(1))

lemma far_lesson: "select_lesson (lessons far_env) ''482913'' (clock far_env) = Some example_lesson"
  by (simp add: select_lesson_def far_env_def example_lesson_def)

lemma fake_lesson: "select_lesson (lessons fake_env) ''482913'' (clock fake_env) = Some example_lesson"
  by (simp add: select_lesson_def fake_env_def far_env_def example_lesson_def)

lemma no_face_lesson:
  "select_lesson (lessons no_face_env) ''482913'' (clock no_face_env) = Some example_lesson"
  by (simp add: select_lesson_def no_face_env_def far_env_def example_lesson_def)

lemma no_face_run:
  "map_option status
     (checkResult (fst (checkin_attempt no_face_env ''482913'' (Inr (Captured zeros))
                          (initial_ui, empty_world))))
     = Some (Some Suspicious) \<and>
   attendance (snd (checkin_attempt no_face_env ''482913'' (Inr (Captured zeros))
                      (initial_ui, empty_world)))
     = attendance empty_world"
proof -
  have env: "current_user no_face_env = Some 7" "isMobileDevice no_face_env"
    "getCurrentLocation no_face_env = Inr \<lparr>loc_latitude = 41.3, loc_longitude = 69.21\<rparr>"
    "userFaceEmbedding no_face_env = None"
    by (simp_all add: no_face_env_def far_env_def)
  have len: "length ''482913'' = 6" by simp
  show ?thesis
    unfolding checkin_attempt_def
      handlePinSubmit_no_face [OF env(1) len env(2) no_face_lesson env(3) env(4)]
    by simp
qed

text \<open>
  200 m from a lesson of radius 120 m: without a registered descriptor the result is
  suspicious, and with a face that does not match the result is suspicious and a
  suspicious attendance row is written.
\<close>

theorem gps_rejection_counterexample:
  "radius_or_default example_lesson < calculateDistance far_env 41.3 69.21 41.3 69.2 \<and>
   radius_or_default example_lesson < calculateDistance no_face_env 41.3 69.21 41.3 69.2 \<and>
   map_option status
     (checkResult (fst (checkin_attempt no_face_env ''482913'' (Inr (Captured zeros))
                          (initial_ui, empty_world))))
     = Some (Some Suspicious) \<and>
   map_option status
     (checkResult (fst (checkin_attempt far_env ''482913'' (Inr (VerificationFailed (Fin (4 / 5))))
                          (initial_ui, empty_world))))
     = Some (Some Suspicious) \<and>
   attendance empty_world (1, 7) = None \<and>
   map_option att_status
     (attendance (snd (checkin_attempt far_env ''482913'' (Inr (VerificationFailed (Fin (4 / 5))))
                         (initial_ui, empty_world))) (1, 7))
     = Some suspicious"
proof -
  have env: "current_user far_env = Some 7" "isMobileDevice far_env"
    "getCurrentLocation far_env = Inr \<lparr>loc_latitude = 41.3, loc_longitude = 69.21\<rparr>"
    "userFaceEmbedding far_env = Some (replicate 128 0)"
    by (simp_all add: far_env_def)
  have len: "length ''482913'' = 6" by simp
  have radius: "radius_or_default example_lesson < calculateDistance far_env 41.3 69.21 41.3 69.2"
    "radius_or_default example_lesson < calculateDistance no_face_env 41.3 69.21 41.3 69.2"
    by (simp_all add: radius_or_default_def example_lesson_def far_env_def no_face_env_def)
  have failed: "map_option status
     (checkResult (fst (checkin_attempt far_env ''482913'' (Inr (VerificationFailed (Fin (4 / 5))))
                          (initial_ui, empty_world))))
     = Some (Some Suspicious)"
    "map_option att_status
     (attendance (snd (checkin_attempt far_env ''482913'' (Inr (VerificationFailed (Fin (4 / 5))))
                         (initial_ui, empty_world))) (1, 7))
     = Some suspicious"
    unfolding checkin_attempt_def
      handlePinSubmit_face [OF env(1) len env(2) far_lesson env(3) env(4)]
    by (simp_all add: faceGate_def handleFaceFailed_def show_result_def env(1) example_lesson_def)
  have "attendance empty_world (1, 7) = None" by (simp add: empty_world_def)
  with radius failed no_face_run show ?thesis by blast
qed

text \<open>
  The student 200 m away, with a registered descriptor and a verified face, and without
  a registered descriptor.
\<close>

theorem gps_rejection_after_face_witness:
  "userFaceEmbedding far_env \<noteq> None \<and>
   fst (detectFakeGPS far_env) = False \<and>
   radius_or_default example_lesson < calculateDistance far_env 41.3 69.21 41.3 69.2 \<and>
   map_option status
     (checkResult (fst (checkin_attempt far_env ''482913'' (Inr (Captured zeros))
                          (initial_ui, empty_world))))
     = Some (Some Rejected) \<and>
   attendance (snd (checkin_attempt far_env ''482913'' (Inr (Captured zeros))
                      (initial_ui, empty_world)))
     = attendance empty_world \<and>
   audit (snd (checkin_attempt far_env ''482913'' (Inr (Captured zeros))
                 (initial_ui, empty_world)))
     = [\<lparr>actor = 7, log_action = ''checkin_rejected'', log_lesson = 1, log_reason = None,
         log_distance = 200\<rparr>] \<and>
   userFaceEmbedding no_face_env = None \<and>
   map_option status
     (checkResult (fst (checkin_attempt no_face_env ''482913'' (Inr (Captured zeros))
                          (initial_ui, empty_world))))
     = Some (Some Suspicious) \<and>
   attendance (snd (checkin_attempt no_face_env ''482913'' (Inr (Captured zeros))
                      (initial_ui, empty_world)))
     = attendance empty_world \<and>
   audit (snd (checkin_attempt no_face_env ''482913'' (Inr (Captured zeros))
                 (initial_ui, empty_world)))
     = [\<lparr>actor = 7, log_action = ''checkin_failed'', log_lesson = 1,
         log_reason = Some ''no_face_id'', log_distance = 200\<rparr>]"
proof -
  have env: "current_user far_env = Some 7" "isMobileDevice far_env"
    "getCurrentLocation far_env = Inr \<lparr>loc_latitude = 41.3, loc_longitude = 69.21\<rparr>"
    "userFaceEmbedding far_env \<noteq> None"
    by (simp_all add: far_env_def)
  have env': "current_user no_face_env = Some 7" "isMobileDevice no_face_env"
    "getCurrentLocation no_face_env = Inr \<lparr>loc_latitude = 41.3, loc_longitude = 69.21\<rparr>"
    "userFaceEmbedding no_face_env = None"
    by (simp_all add: no_face_env_def far_env_def)
  have len: "length ''482913'' = 6" by simp
  have far: "fst (detectFakeGPS far_env) = False"
    "radius_or_default example_lesson < calculateDistance far_env 41.3 69.21 41.3 69.2"
    "calculateDistance far_env 41.3 69.21 41.3 69.2 = 200"
    "calculateDistance no_face_env 41.3 69.21 41.3 69.2 = 200"
    by (simp_all add: far_env_def no_face_env_def radius_or_default_def example_lesson_def)
  have lesson: "latitude example_lesson = 41.3" "longitude example_lesson = 69.2"
    "lesson_id example_lesson = 1"
    by (simp_all add: example_lesson_def)
  from gps_rejection_after_face [OF env(1) len env(2) far_lesson env(3) refl,
      of zeros initial_ui empty_world "Inr (Captured zeros)"]
    gps_rejection_after_face [OF env'(1) len env'(2) no_face_lesson env'(3) refl,
      of zeros initial_ui empty_world "Inr (Captured zeros)"]
  show ?thesis
    using env(4) env'(4) far
    by (simp add: lesson empty_world_def)
qed

text \<open>The student 200 m away reaches the face step and is rejected after it.\<close>

theorem face_gate_before_gps_gate_witness:
  "step (fst (handlePinSubmit far_env ''482913'' (initial_ui, empty_world))) = FaceStep \<and>
   snd (handlePinSubmit far_env ''482913'' (initial_ui, empty_world)) = empty_world \<and>
   map_option status
     (checkResult (fst (checkin_attempt far_env ''482913'' (Inr (Captured zeros))
                          (initial_ui, empty_world))))
     = Some (Some Rejected)"
proof -
  have env: "current_user far_env = Some 7" "isMobileDevice far_env"
    "getCurrentLocation far_env = Inr \<lparr>loc_latitude = 41.3, loc_longitude = 69.21\<rparr>"
    "userFaceEmbedding far_env = Some (replicate 128 0)"
    by (simp_all add: far_env_def)
  have len: "length ''482913'' = 6" by simp
  from face_gate_before_gps_gate [OF env(1) len env(2) far_lesson env(3) env(4) refl,
      of initial_ui empty_world zeros]
  show ?thesis
    by (simp add: far_env_def radius_or_default_def example_lesson_def)
qed

text \<open>
  With a GPS reported as fake the face step is entered; the rejection comes after the
  face is verified, and a face that does not match is persisted as suspicious with the
  fake-GPS flag set.
\<close>

theorem face_gate_counterexample:
  "fst (detectFakeGPS fake_env) \<and>
   step (fst (handlePinSubmit fake_env ''482913'' (initial_ui, empty_world))) = FaceStep \<and>
   checkResult (fst (handlePinSubmit fake_env ''482913'' (initial_ui, empty_world))) = None \<and>
   map_option status
     (checkResult (fst (checkin_attempt fake_env ''482913'' (Inr (Captured zeros))
                          (initial_ui, empty_world))))
     = Some (Some Rejected) \<and>
   map_option att_status
     (attendance (snd (checkin_attempt fake_env ''482913'' (Inr (VerificationFailed (Fin (4 / 5))))
                         (initial_ui, empty_world))) (1, 7))
     = Some suspicious \<and>
   map_option is_fake_gps
     (attendance (snd (checkin_attempt fake_env ''482913'' (Inr (VerificationFailed (Fin (4 / 5))))
                         (initial_ui, empty_world))) (1, 7))
     = Some True"
proof -
  have env: "current_user fake_env = Some 7" "isMobileDevice fake_env"
    "getCurrentLocation fake_env = Inr \<lparr>loc_latitude = 41.3, loc_longitude = 69.21\<rparr>"
    "userFaceEmbedding fake_env = Some (replicate 128 0)"
    by (simp_all add: fake_env_def far_env_def)
  have len: "length ''482913'' = 6" by simp
  show ?thesis
    unfolding checkin_attempt_def
      handlePinSubmit_face [OF env(1) len env(2) fake_lesson env(3) env(4)]
    by (simp add: faceGate_def handleFaceFailed_def handleFaceVerified_def completeCheckin_def
          show_result_def env(1) empty_world_def example_lesson_def Let_def)
      (simp add: fake_env_def)
qed


end
